theory Spec2Isabelle
  imports Main
begin

section \<open>Go values\<close>

text \<open>
  A Go \<^verbatim>\<open>string\<close> and a Go \<^verbatim>\<open>[]byte\<close> are both sequences of bytes, and the
  conversions \<^verbatim>\<open>[]byte(s)\<close> and \<^verbatim>\<open>string(b)\<close> keep the bytes. Both are modelled as
  lists of \<^typ>\<open>char\<close> (an 8-bit value), so the conversions are the identity.
\<close>

type_synonym bytes = string

section \<open>The standard library: encoding/hex and crypto/hmac\<close>

text \<open>
  \<^verbatim>\<open>hex.EncodeToString\<close> writes, for every byte \<^verbatim>\<open>v\<close>, the two characters
  \<^verbatim>\<open>hextable[v>>4]\<close> and \<^verbatim>\<open>hextable[v&0x0f]\<close>; on a byte, \<^verbatim>\<open>v>>4\<close> is
  \<open>v div 16\<close> and \<^verbatim>\<open>v&0x0f\<close> is \<open>v mod 16\<close>.
\<close>

definition hextable :: string where
  "hextable = ''0123456789abcdef''"

definition EncodeToString :: "bytes \<Rightarrow> string" where
  "EncodeToString src =
     concat (map (\<lambda>v. [hextable ! ((of_char v :: nat) div 16),
                        hextable ! ((of_char v :: nat) mod 16)]) src)"

text \<open>
  \<^verbatim>\<open>reverseHexTable\<close> maps the digits, \<^verbatim>\<open>a..f\<close> and \<^verbatim>\<open>A..F\<close> to their value and every
  other byte to \<^verbatim>\<open>0xff\<close>.
\<close>

definition reverseHexTable :: "char \<Rightarrow> nat" where
  "reverseHexTable c =
     (let n = (of_char c :: nat) in
      if 48 \<le> n \<and> n \<le> 57 then n - 48
      else if 97 \<le> n \<and> n \<le> 102 then n - 87
      else if 65 \<le> n \<and> n \<le> 70 then n - 55
      else 255)"

datatype hex_error = InvalidByteError char | ErrLength

text \<open>
  \<^verbatim>\<open>hex.DecodeString\<close> returns the bytes decoded so far together with the error, as
  Go's \<^verbatim>\<open>([]byte, error)\<close>: \<open>None\<close> is \<^verbatim>\<open>nil\<close>. The loop reads two characters at
  a time; a character that is no hex digit is reported before an odd length.
\<close>

fun DecodeString :: "string \<Rightarrow> bytes \<times> hex_error option" where
  "DecodeString (p # q # src) =
     (let a = reverseHexTable p; b = reverseHexTable q in
      if a > 15 then ([], Some (InvalidByteError p))
      else if b > 15 then ([], Some (InvalidByteError q))
      else (case DecodeString src of (dst, err) \<Rightarrow> (char_of (a * 16 + b) # dst, err)))"
| "DecodeString [p] =
     (if reverseHexTable p > 15 then ([], Some (InvalidByteError p)) else ([], Some ErrLength))"
| "DecodeString [] = ([], None)"

text \<open>
  \<^verbatim>\<open>hmac.Equal\<close> compares two byte slices in constant time; its result is true
  exactly when they have the same length and the same contents.
\<close>

definition hmac_Equal :: "bytes \<Rightarrow> bytes \<Rightarrow> bool" where
  "hmac_Equal mac1 mac2 = (mac1 = mac2)"

section \<open>The standard library: net/http response writer\<close>

text \<open>
  \<^verbatim>\<open>http.ResponseWriter\<close>: the status of the response is fixed by the first
  \<^verbatim>\<open>WriteHeader\<close> (a later call is ignored as superfluous), and a write before any
  \<^verbatim>\<open>WriteHeader\<close> fixes it at 200. \<open>write_error\<close> is the error every write on this
  connection returns (\<open>None\<close> on a healthy one).
\<close>

record ResponseWriter =
  wroteHeader :: "nat option"
  written :: string
  write_error :: "string option"

definition WriteHeader :: "nat \<Rightarrow> ResponseWriter \<Rightarrow> ResponseWriter" where
  "WriteHeader statusCode w =
     (if wroteHeader w = None then w\<lparr>wroteHeader := Some statusCode\<rparr> else w)"

definition io_WriteString :: "ResponseWriter \<Rightarrow> string \<Rightarrow> ResponseWriter \<times> string option" where
  "io_WriteString w s =
     (let w1 = WriteHeader 200 w in (w1\<lparr>written := written w1 @ s\<rparr>, write_error w))"

section \<open>SPIKE Nexus: state, request and response types\<close>

record Credentials =
  PasswordHash :: string
  Salt :: string

record nexus_state =
  adminToken :: string
  adminCredentials :: Credentials
  rootKey :: string

text \<open>
  Modelled from the spec: the accessors of package \<^verbatim>\<open>app/nexus/internal/state\<close>, which
  is not among the sources. The spec (4.1 CredentialVault, RootKeyStore) makes them pure
  storage: a getter returns what the last setter stored, and
  \<^verbatim>\<open>SetAdminCredentials(passwordHash, salt)\<close> stores its two arguments in the record
  whose fields \<^verbatim>\<open>PasswordHash\<close> and \<^verbatim>\<open>Salt\<close> the login handler reads.
\<close>

definition AdminToken :: "nexus_state \<Rightarrow> string" where
  "AdminToken st = adminToken st"

definition AdminCredentials :: "nexus_state \<Rightarrow> Credentials" where
  "AdminCredentials st = adminCredentials st"

definition RootKey :: "nexus_state \<Rightarrow> string" where
  "RootKey st = rootKey st"

definition SetAdminToken :: "string \<Rightarrow> nexus_state \<Rightarrow> nexus_state" where
  "SetAdminToken token st = st\<lparr>adminToken := token\<rparr>"

definition SetAdminCredentials :: "string \<Rightarrow> string \<Rightarrow> nexus_state \<Rightarrow> nexus_state" where
  "SetAdminCredentials passwordHash salt st =
     st\<lparr>adminCredentials := \<lparr>PasswordHash = passwordHash, Salt = salt\<rparr>\<rparr>"

text \<open>
  The types of package \<^verbatim>\<open>internal/entity/v1/reqres\<close> as the handlers use them. A
  struct literal that leaves a field out holds Go's zero value there: the empty string,
  and \<open>ErrNone\<close> for the error code.
\<close>

datatype ErrorCode = ErrNone | ErrBadInput | ErrUnauthorized | ErrServerFault

record AdminLoginRequest =
  Password :: string

record AdminLoginResponse =
  Token :: string
  Err :: ErrorCode

record http_Request =
  Method :: string
  URL_Path :: string
  URL_RawQuery :: string
  Body :: bytes

record AuditEntry =
  Action :: string

text \<open>
  What lies outside the sources is a parameter of the model:
  \<^item> \<^verbatim>\<open>pbkdf2.Key(password, salt, iter, keyLen, sha256.New)\<close> of
    \<^verbatim>\<open>golang.org/x/crypto/pbkdf2\<close>, for a \<open>keyLen\<close> that is not negative;
  \<^item> \<^verbatim>\<open>env.Pbkdf2IterationCount()\<close> and \<^verbatim>\<open>env.ShaHashLength()\<close> of the configuration
    package;
  \<^item> the helpers of \<^verbatim>\<open>internal/net\<close>. The handler hands each of them the response
    writer, so each takes the writer and returns it as it leaves it, together with its
    result: \<^verbatim>\<open>ReadRequestBody(r, w)\<close> and \<^verbatim>\<open>MarshalBody(res, w)\<close> return \<^verbatim>\<open>nil\<close>
    (\<open>None\<close>) when they fail, \<^verbatim>\<open>HandleRequest(requestBody, w, fallback)\<close> returns a
    \<^verbatim>\<open>nil\<close> request when the body does not parse, \<^verbatim>\<open>CreateJwt(adminToken, w)\<close> returns
    the empty string when signing fails, and \<^verbatim>\<open>Respond(statusCode, body, w)\<close> only
    writes.
  Nothing is assumed about what a helper writes, on success or on failure.
\<close>

record externals =
  pbkdf2_Key :: "bytes \<Rightarrow> bytes \<Rightarrow> int \<Rightarrow> int \<Rightarrow> bytes"
  env_Pbkdf2IterationCount :: int
  env_ShaHashLength :: int
  net_ReadRequestBody :: "http_Request \<Rightarrow> ResponseWriter \<Rightarrow> ResponseWriter \<times> bytes option"
  net_HandleRequest ::
    "bytes \<Rightarrow> ResponseWriter \<Rightarrow> AdminLoginResponse \<Rightarrow> ResponseWriter \<times> AdminLoginRequest option"
  net_MarshalBody :: "AdminLoginResponse \<Rightarrow> ResponseWriter \<Rightarrow> ResponseWriter \<times> bytes option"
  net_CreateJwt :: "string \<Rightarrow> ResponseWriter \<Rightarrow> ResponseWriter \<times> string"
  net_Respond :: "nat \<Rightarrow> bytes \<Rightarrow> ResponseWriter \<Rightarrow> ResponseWriter"

section \<open>Bootstrap: updateStateForInit\<close>

text \<open>
  \<^verbatim>\<open>pbkdf2.Key\<close> ends with \<^verbatim>\<open>return dk[:keyLen]\<close>, which panics for a negative
  \<open>keyLen\<close>. In \<^verbatim>\<open>updateStateForInit\<close> the length comes from the configuration, and the
  derivation runs before the two setters: with a negative configured length the call
  panics and nothing is stored (\<open>Inl Panic\<close>). Otherwise it returns, with the state after
  the two setters (\<open>Inr\<close>).
\<close>

datatype runtime_panic = Panic

definition updateStateForInit ::
  "externals \<Rightarrow> string \<Rightarrow> bytes \<Rightarrow> bytes \<Rightarrow> nexus_state \<Rightarrow> runtime_panic + nexus_state" where
  "updateStateForInit X password adminTokenBytes salt st =
     (let iterationCount = env_Pbkdf2IterationCount X;
          hashLength = env_ShaHashLength X
      in if hashLength < 0 then Inl Panic
         else
           (let passwordHash = pbkdf2_Key X password salt iterationCount hashLength
            in Inr (SetAdminCredentials (EncodeToString passwordHash) (EncodeToString salt)
                      (SetAdminToken (''spike.'' @ adminTokenBytes) st))))"

section \<open>Login: routeAdminLogin\<close>

datatype log_arg = Str string | ErrorText hex_error

datatype log_record = LogInfo "log_arg list" | LogError "log_arg list"

text \<open>
  What a call of the handler leaves behind: the server state and the audit entry after
  it; the response writer after it, as the helpers and the handler's own
  \<^verbatim>\<open>net.Respond\<close> have left it; the \<^verbatim>\<open>net.Respond(status, body, w)\<close> call the handler
  itself made (\<open>None\<close> on the exits that return without one, where the last word on the
  writer was a helper's); the log records in order; and the returned \<^verbatim>\<open>error\<close> (its
  text; \<open>None\<close> is \<^verbatim>\<open>nil\<close>). The derivation in the handler has the constant length 32
  and cannot panic.
\<close>

record login_result =
  state_after :: nexus_state
  audit_after :: AuditEntry
  writer_after :: ResponseWriter
  responded :: "(nat \<times> bytes) option"
  logged :: "log_record list"
  returned :: "string option"

definition routeAdminLogin ::
  "externals \<Rightarrow> nexus_state \<Rightarrow> AuditEntry \<Rightarrow> http_Request \<Rightarrow> ResponseWriter \<Rightarrow> login_result" where
  "routeAdminLogin X st audit r w =
    (let log0 = [LogInfo [Str ''routeAdminLogin'', Str ''method'', Str (Method r),
                          Str ''path'', Str (URL_Path r), Str ''query'', Str (URL_RawQuery r)]];
         audit1 = audit\<lparr>Action := ''login''\<rparr>;
         ret = (\<lambda>wr resp logs err.
                  \<lparr>state_after = st, audit_after = audit1, writer_after = wr, responded = resp,
                   logged = log0 @ logs, returned = err\<rparr>)
     in
     case net_ReadRequestBody X r w of
       (w1, None) \<Rightarrow> ret w1 None [] (Some ''failed to read request body'')
     | (w1, Some requestBody) \<Rightarrow>
    (case net_HandleRequest X requestBody w1 \<lparr>Token = '''', Err = ErrBadInput\<rparr> of
       (w2, None) \<Rightarrow> ret w2 None [] (Some ''failed to parse request body'')
     | (w2, Some request) \<Rightarrow>
    (let password = Password request;
         creds = AdminCredentials st;
         passwordHash = PasswordHash creds;
         salt = Salt creds
     in
     case DecodeString salt of
       (s, Some err) \<Rightarrow>
         (let logs = [LogError [Str ''routeAdminLogin'', Str ''msg'',
                                Str ''Problem decoding salt'', Str ''err'', ErrorText err]]
          in case net_MarshalBody X \<lparr>Token = '''', Err = ErrServerFault\<rparr> w2 of
               (w3, None) \<Rightarrow> ret w3 None logs (Some ''failed to marshal response body'')
             | (w3, Some body) \<Rightarrow>
                 ret (net_Respond X 500 body w3) (Some (500, body))
                   (logs @ [LogInfo [Str ''routeAdminLogin'', Str ''msg'', Str ''unauthorized'']])
                   (Some ''failed to decode salt''))
     | (s, None) \<Rightarrow>
    (let iterationCount = 600000;
         hashLength = 32;
         ph = pbkdf2_Key X password s iterationCount hashLength
     in
     case DecodeString passwordHash of
       (b, Some err) \<Rightarrow>
         (let logs = [LogError [Str ''routeAdminLogin'', Str ''msg'',
                                Str ''Problem decoding password hash'', Str ''err'', ErrorText err]]
          in case net_MarshalBody X \<lparr>Token = '''', Err = ErrServerFault\<rparr> w2 of
               (w3, None) \<Rightarrow> ret w3 None logs (Some ''failed to marshal response body'')
             | (w3, Some responseBody) \<Rightarrow>
                 ret (net_Respond X 500 responseBody w3) (Some (500, responseBody))
                   (logs @ [LogInfo [Str ''routeAdminLogin'', Str ''msg'', Str ''OK'']])
                   (Some ''failed to decode password hash''))
     | (b, None) \<Rightarrow>
    (if \<not> hmac_Equal ph b then
       (let logs = [LogInfo [Str ''routeAdminLogin'', Str ''msg'', Str ''Invalid password'']]
        in case net_MarshalBody X \<lparr>Token = '''', Err = ErrUnauthorized\<rparr> w2 of
             (w3, None) \<Rightarrow> ret w3 None logs (Some ''failed to marshal response body'')
           | (w3, Some responseBody) \<Rightarrow>
               ret (net_Respond X 401 responseBody w3) (Some (401, responseBody))
                 (logs @ [LogInfo [Str ''routeAdminLogin'', Str ''msg'', Str ''unauthorized'']])
                 (Some ''invalid password''))
     else
    (let adminToken = AdminToken st in
     if adminToken = '''' then
       (let logs = [LogError [Str ''routeAdminLogin'', Str ''msg'', Str ''Admin token not set'']]
        in case net_MarshalBody X \<lparr>Token = '''', Err = ErrServerFault\<rparr> w2 of
             (w3, None) \<Rightarrow> ret w3 None logs (Some ''failed to marshal response body'')
           | (w3, Some responseBody) \<Rightarrow>
               ret (net_Respond X 500 responseBody w3) (Some (500, responseBody))
                 (logs @ [LogInfo [Str ''routeAdminLogin'', Str ''msg'', Str ''unauthorized'']])
                 (Some ''admin token not set''))
     else
    (case net_CreateJwt X adminToken w2 of
       (w3, signedToken) \<Rightarrow>
     if signedToken = '''' then ret w3 None [] (Some ''failed to sign token'')
     else
       (case net_MarshalBody X \<lparr>Token = signedToken, Err = ErrNone\<rparr> w3 of
          (w4, None) \<Rightarrow> ret w4 None [] (Some ''failed to marshal response body'')
        | (w4, Some responseBody) \<Rightarrow>
            ret (net_Respond X 200 responseBody w4) (Some (200, responseBody))
              [LogInfo [Str ''routeAdminLogin'', Str ''msg'', Str ''authorized'']]
              None))))))))"

text \<open>
  Every exit of the handler has the same shape: the state it was given, the audit entry
  with its action set, the writer, the first log record, and what the path adds.
  \<open>login_exit\<close> names that shape for the statements below.
\<close>

definition login_exit ::
  "nexus_state \<Rightarrow> AuditEntry \<Rightarrow> http_Request \<Rightarrow> ResponseWriter \<Rightarrow> (nat \<times> bytes) option
     \<Rightarrow> log_record list \<Rightarrow> string option \<Rightarrow> login_result" where
  "login_exit st audit r wr resp logs err =
     \<lparr>state_after = st, audit_after = audit\<lparr>Action := ''login''\<rparr>, writer_after = wr,
      responded = resp,
      logged = LogInfo [Str ''routeAdminLogin'', Str ''method'', Str (Method r),
                        Str ''path'', Str (URL_Path r), Str ''query'', Str (URL_RawQuery r)] # logs,
      returned = err\<rparr>"

section \<open>Replicator: Tick\<close>

text \<open>
  \<^verbatim>\<open>Tick\<close> loops over a \<^verbatim>\<open>select\<close> with two cases. The model runs the loop over the
  list of cases the \<^verbatim>\<open>select\<close> takes, in order: \<open>TickerC upd\<close> is a tick, carrying what
  \<^verbatim>\<open>net.UpdateCache\<close> (not among the sources) returns if it is called at that tick
  (\<open>None\<close> is \<^verbatim>\<open>nil\<close>, \<open>Some e\<close> an error with text \<open>e\<close>); \<open>CtxDone\<close> is the
  cancellation. \<open>StateWrite st\<close> stands for another goroutine storing a new state between
  two selects: \<^verbatim>\<open>Tick\<close> itself only reads the root key. When the list is exhausted the
  loop is blocked in \<^verbatim>\<open>select\<close> (\<open>Selecting\<close>). \<^verbatim>\<open>Tick\<close> has no result value, so the
  only thing a caller sees is whether it has returned.
\<close>

datatype select_case = TickerC "string option" | CtxDone | StateWrite nexus_state

datatype tick_status = Returned | Selecting

record tick_world =
  nexus :: nexus_state
  tick_log :: "string list"
  cache_updates :: "string list"

fun Tick :: "tick_world \<Rightarrow> select_case list \<Rightarrow> tick_status \<times> tick_world" where
  "Tick w [] = (Selecting, w)"
| "Tick w (CtxDone # evs) = (Returned, w)"
| "Tick w (StateWrite st # evs) = Tick (w\<lparr>nexus := st\<rparr>) evs"
| "Tick w (TickerC upd # evs) =
     (let key = RootKey (nexus w) in
      if key = '''' then Tick w evs
      else
        (let w1 = w\<lparr>cache_updates := cache_updates w @ [key]\<rparr> in
         case upd of
           Some err \<Rightarrow>
             Tick (w1\<lparr>tick_log := tick_log w1 @
                     ['''', ''Unable to update the cache: '' @ err,
                      ''Make sure SPIKE Keeper is up and running'', '''']\<rparr>) evs
         | None \<Rightarrow>
             Tick (w1\<lparr>tick_log := tick_log w1 @ [''Successfully updated the cache'']\<rparr>) evs))"

section \<open>SPIKE Keeper: routeShow\<close>

record keeper_state =
  keeper_rootKey :: string

text \<open>
  Modelled from the spec: the accessor \<^verbatim>\<open>state.RootKey()\<close> of package
  \<^verbatim>\<open>app/keeper/internal/state\<close>, which is not among the sources; the spec (4.5) makes it
  return the key the Keeper currently holds, empty when none was received.
\<close>

definition keeper_RootKey :: "keeper_state \<Rightarrow> string" where
  "keeper_RootKey ks = keeper_rootKey ks"

record RootKeyReadResponse =
  rkr_RootKey :: string

text \<open>
  The helpers of \<^verbatim>\<open>internal/net\<close> and \<^verbatim>\<open>encoding/json\<close> as the handler calls them.
  \<^verbatim>\<open>ReadRequestBody(r, w)\<close> and \<^verbatim>\<open>HandleRequestError(w, err)\<close> are handed the writer,
  so they return the writer as they leave it; \<^verbatim>\<open>json.Unmarshal\<close> returns an error or
  \<^verbatim>\<open>nil\<close>, \<^verbatim>\<open>json.Marshal\<close> the bytes and an error.
\<close>

record keeper_externals =
  kx_ReadRequestBody :: "http_Request \<Rightarrow> ResponseWriter \<Rightarrow> ResponseWriter \<times> bytes option"
  kx_HandleRequestError :: "ResponseWriter \<Rightarrow> string option \<Rightarrow> ResponseWriter \<times> string option"
  json_Unmarshal :: "bytes \<Rightarrow> string option"
  json_Marshal :: "RootKeyReadResponse \<Rightarrow> bytes \<times> string option"

record show_result =
  keeper_after :: keeper_state
  writer :: ResponseWriter
  printed :: "string list"

definition routeShow ::
  "keeper_externals \<Rightarrow> keeper_state \<Rightarrow> http_Request \<Rightarrow> ResponseWriter \<Rightarrow> show_result" where
  "routeShow K ks r w =
    (let out0 = [''routeShow: '' @ Method r @ '' '' @ URL_Path r @ '' '' @ URL_RawQuery r] in
     case kx_ReadRequestBody K r w of
       (w1, None) \<Rightarrow> \<lparr>keeper_after = ks, writer = w1, printed = out0\<rparr>
     | (w1, Some body) \<Rightarrow>
    (case kx_HandleRequestError K w1 (json_Unmarshal K body) of
       (w2, Some err) \<Rightarrow>
         (let out1 = out0 @ [''routeShow: Problem handling request: '' @ err];
              w3 = WriteHeader 400 w2
          in case io_WriteString w3 '''' of
               (w4, Some werr) \<Rightarrow>
                 \<lparr>keeper_after = ks, writer = w4,
                  printed = out1 @ [''routeShow: Problem writing response: '' @ werr]\<rparr>
             | (w4, None) \<Rightarrow> \<lparr>keeper_after = ks, writer = w4, printed = out1\<rparr>)
     | (w2, None) \<Rightarrow>
    (let rootKey = keeper_RootKey ks;
         res = \<lparr>rkr_RootKey = rootKey\<rparr>;
         (md, err) = json_Marshal K res;
         (out1, w3) = (case err of
                         Some e \<Rightarrow> (out0 @ [''routeShow: Problem generating response: '' @ e],
                                    WriteHeader 500 w2)
                       | None \<Rightarrow> (out0, w2));
         w4 = WriteHeader 200 w3
     in case io_WriteString w4 md of
          (w5, Some werr) \<Rightarrow>
            \<lparr>keeper_after = ks, writer = w5,
             printed = out1 @ [''routeShow: Problem writing response: '' @ werr]\<rparr>
        | (w5, None) \<Rightarrow> \<lparr>keeper_after = ks, writer = w5, printed = out1\<rparr>)))"

section \<open>RecoveryCoordinator: Recover\<close>

text \<open>
  Modelled from the spec: \<^verbatim>\<open>Recover()\<close> and its quorum rule, which no file among the
  sources implements. The spec (4.6): query every configured Keeper, collecting
  (endpoint, key-or-empty, error-or-nil); keep the successful non-empty values; group
  identical values; with \<open>N\<close> the number of configured Keepers and \<open>T = N div 2 + 1\<close>,
  accept a value when a single value is returned by at least \<open>T\<close> Keepers, and fail
  otherwise. One reply per configured Keeper, so \<open>N\<close> is the number of replies.
\<close>

record keeper_reply =
  reply_endpoint :: string
  reply_key :: string
  reply_error :: "string option"

datatype RecoveryError = RecoveryQuorumFailure

definition quorum_threshold :: "nat \<Rightarrow> nat" where
  "quorum_threshold N = N div 2 + 1"

definition successful_values :: "keeper_reply list \<Rightarrow> string list" where
  "successful_values replies =
     map reply_key (filter (\<lambda>x. reply_error x = None \<and> reply_key x \<noteq> '''') replies)"

definition Recover :: "keeper_reply list \<Rightarrow> RecoveryError + string" where
  "Recover replies =
     (let vals = successful_values replies;
          groups = remdups vals;
          T = quorum_threshold (length replies)
      in case filter (\<lambda>k. T \<le> count_list vals k) groups of
           [k] \<Rightarrow> Inr k
         | _ \<Rightarrow> Inl RecoveryQuorumFailure)"

section \<open>The helpers of internal/net, from the spec\<close>

text \<open>
  Modelled from the spec: what the helpers of package \<^verbatim>\<open>internal/net\<close> answer, which no
  file among the sources shows. The spec (4.2 step 6, 6 and 7) gives every failure path of
  login one of three answers, a status with a coarse error code and nothing else as the
  body: 400 \<^verbatim>\<open>bad_input\<close> for a malformed request body, 401 \<^verbatim>\<open>unauthorized\<close>, and 500
  \<^verbatim>\<open>server_fault\<close> for a server fault, which includes a signing failure and a marshal
  failure; the handler's own documentation lists the same status codes. So
  \<^item> \<^verbatim>\<open>Respond\<close> writes the status and the body;
  \<^item> \<^verbatim>\<open>ReadRequestBody\<close> answers 400 with the bad-input code when the body cannot be
    read, and \<^verbatim>\<open>HandleRequest\<close> answers 400 with the code of the response it was handed
    for that case (the bad-input code, in the login handler) when the body cannot be
    parsed; they write nothing otherwise;
  \<^item> \<^verbatim>\<open>MarshalBody\<close> and \<^verbatim>\<open>CreateJwt\<close> answer 500 with the server-fault code when
    marshalling or signing fails, and write nothing otherwise.
  Whether a body can be read, parsed, marshalled or a token signed is left open
  (\<open>login_io\<close>), and so are the bytes that stand for a coarse code on the wire.
\<close>

record login_io =
  io_read :: "http_Request \<Rightarrow> bytes option"
  io_parse :: "bytes \<Rightarrow> AdminLoginRequest option"
  io_marshal :: "AdminLoginResponse \<Rightarrow> bytes option"
  io_sign :: "string \<Rightarrow> string"
  io_code_body :: "ErrorCode \<Rightarrow> bytes"

definition spec_Respond :: "nat \<Rightarrow> bytes \<Rightarrow> ResponseWriter \<Rightarrow> ResponseWriter" where
  "spec_Respond statusCode body w = fst (io_WriteString (WriteHeader statusCode w) body)"

definition spec_ReadRequestBody ::
  "login_io \<Rightarrow> http_Request \<Rightarrow> ResponseWriter \<Rightarrow> ResponseWriter \<times> bytes option" where
  "spec_ReadRequestBody io r w =
     (case io_read io r of
        None \<Rightarrow> (spec_Respond 400 (io_code_body io ErrBadInput) w, None)
      | Some body \<Rightarrow> (w, Some body))"

definition spec_HandleRequest ::
  "login_io \<Rightarrow> bytes \<Rightarrow> ResponseWriter \<Rightarrow> AdminLoginResponse
     \<Rightarrow> ResponseWriter \<times> AdminLoginRequest option" where
  "spec_HandleRequest io requestBody w fallback =
     (case io_parse io requestBody of
        None \<Rightarrow> (spec_Respond 400 (io_code_body io (Err fallback)) w, None)
      | Some request \<Rightarrow> (w, Some request))"

definition spec_MarshalBody ::
  "login_io \<Rightarrow> AdminLoginResponse \<Rightarrow> ResponseWriter \<Rightarrow> ResponseWriter \<times> bytes option" where
  "spec_MarshalBody io res w =
     (case io_marshal io res of
        None \<Rightarrow> (spec_Respond 500 (io_code_body io ErrServerFault) w, None)
      | Some body \<Rightarrow> (w, Some body))"

definition spec_CreateJwt ::
  "login_io \<Rightarrow> string \<Rightarrow> ResponseWriter \<Rightarrow> ResponseWriter \<times> string" where
  "spec_CreateJwt io token w =
     (if io_sign io token = ''''
      then (spec_Respond 500 (io_code_body io ErrServerFault) w, '''')
      else (w, io_sign io token))"

text \<open>The surroundings \<open>X\<close> with its helpers replaced by the ones above.\<close>

definition spec_helpers :: "login_io \<Rightarrow> externals \<Rightarrow> externals" where
  "spec_helpers io X =
     X\<lparr>net_ReadRequestBody := spec_ReadRequestBody io,
       net_HandleRequest := spec_HandleRequest io,
       net_MarshalBody := spec_MarshalBody io,
       net_CreateJwt := spec_CreateJwt io,
       net_Respond := spec_Respond\<rparr>"

section \<open>Concrete surroundings for closed examples\<close>

text \<open>
  The theorems below hold for every choice of the functions that lie outside the sources.
  To state closed examples, one concrete choice is fixed here: a key derivation that
  returns \<open>keyLen\<close> bytes read off the password and the salt, helpers that always succeed
  and leave the writer alone, a \<^verbatim>\<open>Respond\<close> that writes the status and the body, and a
  marshaller that writes the two fields of the response in order. None of the general
  theorems refers to these.
\<close>

definition demo_pbkdf2 :: "bytes \<Rightarrow> bytes \<Rightarrow> int \<Rightarrow> int \<Rightarrow> bytes" where
  "demo_pbkdf2 password salt iter keyLen =
     take (nat keyLen) (password @ salt @ replicate (nat keyLen) (CHR ''0''))"

fun demo_code :: "ErrorCode \<Rightarrow> string" where
  "demo_code ErrNone = ''''"
| "demo_code ErrBadInput = ''bad_input''"
| "demo_code ErrUnauthorized = ''unauthorized''"
| "demo_code ErrServerFault = ''server_fault''"

definition demo_marshal :: "AdminLoginResponse \<Rightarrow> bytes" where
  "demo_marshal resp = ''token='' @ Token resp @ '';err='' @ demo_code (Err resp)"

definition demo_externals :: externals where
  "demo_externals =
     \<lparr>pbkdf2_Key = demo_pbkdf2,
      env_Pbkdf2IterationCount = 600000,
      env_ShaHashLength = 32,
      net_ReadRequestBody = (\<lambda>r w. (w, Some (Body r))),
      net_HandleRequest = (\<lambda>body w fallback. (w, Some \<lparr>Password = body\<rparr>)),
      net_MarshalBody = (\<lambda>resp w. (w, Some (demo_marshal resp))),
      net_CreateJwt = (\<lambda>token w. (w, ''jwt.'' @ token)),
      net_Respond = (\<lambda>statusCode body w. fst (io_WriteString (WriteHeader statusCode w) body))\<rparr>"

definition demo_request :: "string \<Rightarrow> http_Request" where
  "demo_request password =
     \<lparr>Method = ''POST'', URL_Path = ''/v1/login'', URL_RawQuery = '''', Body = password\<rparr>"

definition demo_state :: nexus_state where
  "demo_state = \<lparr>adminToken = '''', adminCredentials = \<lparr>PasswordHash = '''', Salt = ''''\<rparr>,
                 rootKey = ''''\<rparr>"

definition demo_audit :: AuditEntry where
  "demo_audit = \<lparr>Action = ''''\<rparr>"

definition fresh_writer :: ResponseWriter where
  "fresh_writer = \<lparr>wroteHeader = None, written = '''', write_error = None\<rparr>"

definition demo_keeper_externals :: keeper_externals where
  "demo_keeper_externals =
     \<lparr>kx_ReadRequestBody = (\<lambda>r w. (w, Some (Body r))),
      kx_HandleRequestError = (\<lambda>w err. (w, err)),
      json_Unmarshal = (\<lambda>body. if body = ''{}'' then None else Some ''unexpected end of JSON input''),
      json_Marshal = (\<lambda>res. (''rootKey='' @ rkr_RootKey res, None))\<rparr>"

text \<open>
  A login whose request can be read and parsed and whose responses can be marshalled, but
  whose session token cannot be signed.
\<close>

definition demo_io_unsigned :: login_io where
  "demo_io_unsigned =
     \<lparr>io_read = (\<lambda>r. Some (Body r)),
      io_parse = (\<lambda>body. Some \<lparr>Password = body\<rparr>),
      io_marshal = (\<lambda>resp. Some (demo_marshal resp)),
      io_sign = (\<lambda>token. ''''),
      io_code_body = demo_code\<rparr>"

text \<open>The same, but with a token that is signed and responses that cannot be marshalled.\<close>

definition demo_io_unmarshalled :: login_io where
  "demo_io_unmarshalled =
     \<lparr>io_read = (\<lambda>r. Some (Body r)),
      io_parse = (\<lambda>body. Some \<lparr>Password = body\<rparr>),
      io_marshal = (\<lambda>resp. None),
      io_sign = (\<lambda>token. ''jwt.'' @ token),
      io_code_body = demo_code\<rparr>"

text \<open>And with everything succeeding.\<close>

definition demo_io :: login_io where
  "demo_io =
     \<lparr>io_read = (\<lambda>r. Some (Body r)),
      io_parse = (\<lambda>body. Some \<lparr>Password = body\<rparr>),
      io_marshal = (\<lambda>resp. Some (demo_marshal resp)),
      io_sign = (\<lambda>token. ''jwt.'' @ token),
      io_code_body = demo_code\<rparr>"

section \<open>Hex encoding round trip\<close>

lemma nibble_table: "list_all (\<lambda>n. reverseHexTable (hextable ! n) = n) [0..<16]"
  by code_simp

lemma nibble_roundtrip: "n < 16 \<Longrightarrow> reverseHexTable (hextable ! n) = n"
  using nibble_table by (simp add: list_all_iff)

lemma of_char_nat_less: "(of_char v :: nat) < 256"
proof -
  have "(of_char v :: nat) mod 256 = of_char v" by (rule of_char_mod_256)
  then show ?thesis by (metis mod_less_divisor zero_less_numeral)
qed

lemma DecodeString_pair:
  "DecodeString (hextable ! ((of_char v :: nat) div 16) # hextable ! ((of_char v :: nat) mod 16) # src) =
     (case DecodeString src of (dst, err) \<Rightarrow> (v # dst, err))"
proof -
  have hi: "(of_char v :: nat) div 16 < 16"
    using of_char_nat_less [of v] by arith
  have lo: "(of_char v :: nat) mod 16 < 16" by simp
  have a: "reverseHexTable (hextable ! ((of_char v :: nat) div 16)) = of_char v div 16"
    using hi by (rule nibble_roundtrip)
  have b: "reverseHexTable (hextable ! ((of_char v :: nat) mod 16)) = of_char v mod 16"
    using lo by (rule nibble_roundtrip)
  have glue: "char_of ((of_char v :: nat) div 16 * 16 + of_char v mod 16) = v"
    by simp
  have "\<not> 15 < (of_char v :: nat) div 16" "\<not> 15 < (of_char v :: nat) mod 16"
    using hi lo by arith+
  then show ?thesis
    by (simp only: DecodeString.simps Let_def a b glue if_False)
qed

lemma DecodeString_EncodeToString: "DecodeString (EncodeToString bs) = (bs, None)"
proof (induction bs)
  case Nil
  show ?case by (simp add: EncodeToString_def)
next
  case (Cons v bs)
  have "EncodeToString (v # bs) =
      hextable ! ((of_char v :: nat) div 16) # hextable ! ((of_char v :: nat) mod 16) # EncodeToString bs"
    by (simp add: EncodeToString_def)
  then show ?case
    by (simp only: DecodeString_pair Cons.IH prod.case)
qed

section \<open>Login paths\<close>

text \<open>
  The thirteen exits of \<^verbatim>\<open>routeAdminLogin\<close>, in the order of the source, each with the
  conditions under which it is taken and the result it leaves. Every call takes exactly
  one of them; the statements about the handler below are proved exit by exit.
\<close>

lemma routeAdminLogin_paths:
  fixes X :: externals and st :: nexus_state and audit :: AuditEntry and r :: http_Request
    and w :: ResponseWriter
  defines "R \<equiv> routeAdminLogin X st audit r w"
  obtains
    (read_fail) w1 where
      "net_ReadRequestBody X r w = (w1, None)"
      "R = login_exit st audit r w1 None
             []
             (Some ''failed to read request body'')"
  | (parse_fail) w1 requestBody w2 where
      "net_ReadRequestBody X r w = (w1, Some requestBody)"
      "net_HandleRequest X requestBody w1 \<lparr>Token = '''', Err = ErrBadInput\<rparr> = (w2, None)"
      "R = login_exit st audit r w2 None
             []
             (Some ''failed to parse request body'')"
  | (salt_bad_unsent) w1 requestBody w2 request s e w3 where
      "net_ReadRequestBody X r w = (w1, Some requestBody)"
      "net_HandleRequest X requestBody w1 \<lparr>Token = '''', Err = ErrBadInput\<rparr> = (w2, Some request)"
      "DecodeString (Salt (AdminCredentials st)) = (s, Some e)"
      "net_MarshalBody X \<lparr>Token = '''', Err = ErrServerFault\<rparr> w2 = (w3, None)"
      "R = login_exit st audit r w3 None
             [LogError [Str ''routeAdminLogin'', Str ''msg'', Str ''Problem decoding salt'',
                        Str ''err'', ErrorText e]]
             (Some ''failed to marshal response body'')"
  | (salt_bad) w1 requestBody w2 request s e w3 body where
      "net_ReadRequestBody X r w = (w1, Some requestBody)"
      "net_HandleRequest X requestBody w1 \<lparr>Token = '''', Err = ErrBadInput\<rparr> = (w2, Some request)"
      "DecodeString (Salt (AdminCredentials st)) = (s, Some e)"
      "net_MarshalBody X \<lparr>Token = '''', Err = ErrServerFault\<rparr> w2 = (w3, Some body)"
      "R = login_exit st audit r (net_Respond X 500 body w3) (Some (500, body))
             [LogError [Str ''routeAdminLogin'', Str ''msg'', Str ''Problem decoding salt'',
                        Str ''err'', ErrorText e],
              LogInfo [Str ''routeAdminLogin'', Str ''msg'', Str ''unauthorized'']]
             (Some ''failed to decode salt'')"
  | (hash_bad_unsent) w1 requestBody w2 request s b e w3 where
      "net_ReadRequestBody X r w = (w1, Some requestBody)"
      "net_HandleRequest X requestBody w1 \<lparr>Token = '''', Err = ErrBadInput\<rparr> = (w2, Some request)"
      "DecodeString (Salt (AdminCredentials st)) = (s, None)"
      "DecodeString (PasswordHash (AdminCredentials st)) = (b, Some e)"
      "net_MarshalBody X \<lparr>Token = '''', Err = ErrServerFault\<rparr> w2 = (w3, None)"
      "R = login_exit st audit r w3 None
             [LogError [Str ''routeAdminLogin'', Str ''msg'', Str ''Problem decoding password hash'',
                        Str ''err'', ErrorText e]]
             (Some ''failed to marshal response body'')"
  | (hash_bad) w1 requestBody w2 request s b e w3 responseBody where
      "net_ReadRequestBody X r w = (w1, Some requestBody)"
      "net_HandleRequest X requestBody w1 \<lparr>Token = '''', Err = ErrBadInput\<rparr> = (w2, Some request)"
      "DecodeString (Salt (AdminCredentials st)) = (s, None)"
      "DecodeString (PasswordHash (AdminCredentials st)) = (b, Some e)"
      "net_MarshalBody X \<lparr>Token = '''', Err = ErrServerFault\<rparr> w2 = (w3, Some responseBody)"
      "R = login_exit st audit r (net_Respond X 500 responseBody w3) (Some (500, responseBody))
             [LogError [Str ''routeAdminLogin'', Str ''msg'', Str ''Problem decoding password hash'',
                        Str ''err'', ErrorText e],
              LogInfo [Str ''routeAdminLogin'', Str ''msg'', Str ''OK'']]
             (Some ''failed to decode password hash'')"
  | (mismatch_unsent) w1 requestBody w2 request s b w3 where
      "net_ReadRequestBody X r w = (w1, Some requestBody)"
      "net_HandleRequest X requestBody w1 \<lparr>Token = '''', Err = ErrBadInput\<rparr> = (w2, Some request)"
      "DecodeString (Salt (AdminCredentials st)) = (s, None)"
      "DecodeString (PasswordHash (AdminCredentials st)) = (b, None)"
      "pbkdf2_Key X (Password request) s 600000 32 \<noteq> b"
      "net_MarshalBody X \<lparr>Token = '''', Err = ErrUnauthorized\<rparr> w2 = (w3, None)"
      "R = login_exit st audit r w3 None
             [LogInfo [Str ''routeAdminLogin'', Str ''msg'', Str ''Invalid password'']]
             (Some ''failed to marshal response body'')"
  | (mismatch) w1 requestBody w2 request s b w3 responseBody where
      "net_ReadRequestBody X r w = (w1, Some requestBody)"
      "net_HandleRequest X requestBody w1 \<lparr>Token = '''', Err = ErrBadInput\<rparr> = (w2, Some request)"
      "DecodeString (Salt (AdminCredentials st)) = (s, None)"
      "DecodeString (PasswordHash (AdminCredentials st)) = (b, None)"
      "pbkdf2_Key X (Password request) s 600000 32 \<noteq> b"
      "net_MarshalBody X \<lparr>Token = '''', Err = ErrUnauthorized\<rparr> w2 = (w3, Some responseBody)"
      "R = login_exit st audit r (net_Respond X 401 responseBody w3) (Some (401, responseBody))
             [LogInfo [Str ''routeAdminLogin'', Str ''msg'', Str ''Invalid password''],
              LogInfo [Str ''routeAdminLogin'', Str ''msg'', Str ''unauthorized'']]
             (Some ''invalid password'')"
  | (no_token_unsent) w1 requestBody w2 request s b w3 where
      "net_ReadRequestBody X r w = (w1, Some requestBody)"
      "net_HandleRequest X requestBody w1 \<lparr>Token = '''', Err = ErrBadInput\<rparr> = (w2, Some request)"
      "DecodeString (Salt (AdminCredentials st)) = (s, None)"
      "DecodeString (PasswordHash (AdminCredentials st)) = (b, None)"
      "pbkdf2_Key X (Password request) s 600000 32 = b"
      "AdminToken st = ''''"
      "net_MarshalBody X \<lparr>Token = '''', Err = ErrServerFault\<rparr> w2 = (w3, None)"
      "R = login_exit st audit r w3 None
             [LogError [Str ''routeAdminLogin'', Str ''msg'', Str ''Admin token not set'']]
             (Some ''failed to marshal response body'')"
  | (no_token) w1 requestBody w2 request s b w3 responseBody where
      "net_ReadRequestBody X r w = (w1, Some requestBody)"
      "net_HandleRequest X requestBody w1 \<lparr>Token = '''', Err = ErrBadInput\<rparr> = (w2, Some request)"
      "DecodeString (Salt (AdminCredentials st)) = (s, None)"
      "DecodeString (PasswordHash (AdminCredentials st)) = (b, None)"
      "pbkdf2_Key X (Password request) s 600000 32 = b"
      "AdminToken st = ''''"
      "net_MarshalBody X \<lparr>Token = '''', Err = ErrServerFault\<rparr> w2 = (w3, Some responseBody)"
      "R = login_exit st audit r (net_Respond X 500 responseBody w3) (Some (500, responseBody))
             [LogError [Str ''routeAdminLogin'', Str ''msg'', Str ''Admin token not set''],
              LogInfo [Str ''routeAdminLogin'', Str ''msg'', Str ''unauthorized'']]
             (Some ''admin token not set'')"
  | (sign_fail) w1 requestBody w2 request s b w3 signedToken where
      "net_ReadRequestBody X r w = (w1, Some requestBody)"
      "net_HandleRequest X requestBody w1 \<lparr>Token = '''', Err = ErrBadInput\<rparr> = (w2, Some request)"
      "DecodeString (Salt (AdminCredentials st)) = (s, None)"
      "DecodeString (PasswordHash (AdminCredentials st)) = (b, None)"
      "pbkdf2_Key X (Password request) s 600000 32 = b"
      "AdminToken st \<noteq> ''''"
      "net_CreateJwt X (AdminToken st) w2 = (w3, signedToken)"
      "signedToken = ''''"
      "R = login_exit st audit r w3 None
             []
             (Some ''failed to sign token'')"
  | (ok_unsent) w1 requestBody w2 request s b w3 signedToken w4 where
      "net_ReadRequestBody X r w = (w1, Some requestBody)"
      "net_HandleRequest X requestBody w1 \<lparr>Token = '''', Err = ErrBadInput\<rparr> = (w2, Some request)"
      "DecodeString (Salt (AdminCredentials st)) = (s, None)"
      "DecodeString (PasswordHash (AdminCredentials st)) = (b, None)"
      "pbkdf2_Key X (Password request) s 600000 32 = b"
      "AdminToken st \<noteq> ''''"
      "net_CreateJwt X (AdminToken st) w2 = (w3, signedToken)"
      "signedToken \<noteq> ''''"
      "net_MarshalBody X \<lparr>Token = signedToken, Err = ErrNone\<rparr> w3 = (w4, None)"
      "R = login_exit st audit r w4 None
             []
             (Some ''failed to marshal response body'')"
  | (ok) w1 requestBody w2 request s b w3 signedToken w4 responseBody where
      "net_ReadRequestBody X r w = (w1, Some requestBody)"
      "net_HandleRequest X requestBody w1 \<lparr>Token = '''', Err = ErrBadInput\<rparr> = (w2, Some request)"
      "DecodeString (Salt (AdminCredentials st)) = (s, None)"
      "DecodeString (PasswordHash (AdminCredentials st)) = (b, None)"
      "pbkdf2_Key X (Password request) s 600000 32 = b"
      "AdminToken st \<noteq> ''''"
      "net_CreateJwt X (AdminToken st) w2 = (w3, signedToken)"
      "signedToken \<noteq> ''''"
      "net_MarshalBody X \<lparr>Token = signedToken, Err = ErrNone\<rparr> w3 = (w4, Some responseBody)"
      "R = login_exit st audit r (net_Respond X 200 responseBody w4) (Some (200, responseBody))
             [LogInfo [Str ''routeAdminLogin'', Str ''msg'', Str ''authorized'']]
             None"
proof -
  obtain w1 rres where rd0: "net_ReadRequestBody X r w = (w1, rres)"
    by (cases "net_ReadRequestBody X r w") auto
  show thesis
  proof (cases rres)
    case None
    note rd = rd0 [unfolded None]
    from rd have "R = login_exit st audit r w1 None
                 []
                 (Some ''failed to read request body'')"
      unfolding R_def routeAdminLogin_def login_exit_def by (simp add: Let_def hmac_Equal_def)
    with rd show thesis by (rule read_fail)
  next
    case (Some requestBody)
    note rd = rd0 [unfolded Some]
    obtain w2 pres where ps0:
      "net_HandleRequest X requestBody w1 \<lparr>Token = '''', Err = ErrBadInput\<rparr> = (w2, pres)"
      by (cases "net_HandleRequest X requestBody w1 \<lparr>Token = '''', Err = ErrBadInput\<rparr>") auto
    show thesis
    proof (cases pres)
      case None
      note ps = ps0 [unfolded None]
      from rd ps have "R = login_exit st audit r w2 None
                   []
                   (Some ''failed to parse request body'')"
        unfolding R_def routeAdminLogin_def login_exit_def by (simp add: Let_def hmac_Equal_def)
      with rd ps show thesis by (rule parse_fail)
    next
      case (Some request)
      note ps = ps0 [unfolded Some]
      obtain s serr where sd: "DecodeString (Salt (AdminCredentials st)) = (s, serr)"
        by (cases "DecodeString (Salt (AdminCredentials st))") auto
      obtain b herr where hd: "DecodeString (PasswordHash (AdminCredentials st)) = (b, herr)"
        by (cases "DecodeString (PasswordHash (AdminCredentials st))") auto
      show thesis
      proof (cases serr)
        case (Some e)
        note se = sd [unfolded Some]
        obtain w3 mres where mb0: "net_MarshalBody X \<lparr>Token = '''', Err = ErrServerFault\<rparr> w2 = (w3, mres)"
          by (cases "net_MarshalBody X \<lparr>Token = '''', Err = ErrServerFault\<rparr> w2") auto
        show thesis
        proof (cases mres)
          case None
          note mb = mb0 [unfolded None]
          from rd ps se mb have "R = login_exit st audit r w3 None
                       [LogError [Str ''routeAdminLogin'', Str ''msg'', Str ''Problem decoding salt'',
                                  Str ''err'', ErrorText e]]
                       (Some ''failed to marshal response body'')"
            unfolding R_def routeAdminLogin_def login_exit_def by (simp add: Let_def hmac_Equal_def)
          with rd ps se mb show thesis by (rule salt_bad_unsent)
        next
          case (Some body)
          note mb = mb0 [unfolded Some]
          from rd ps se mb have "R = login_exit st audit r (net_Respond X 500 body w3) (Some (500, body))
                       [LogError [Str ''routeAdminLogin'', Str ''msg'', Str ''Problem decoding salt'',
                                  Str ''err'', ErrorText e],
                        LogInfo [Str ''routeAdminLogin'', Str ''msg'', Str ''unauthorized'']]
                       (Some ''failed to decode salt'')"
            unfolding R_def routeAdminLogin_def login_exit_def by (simp add: Let_def hmac_Equal_def)
          with rd ps se mb show thesis by (rule salt_bad)
        qed
      next
        case None
        note se = sd [unfolded None]
        show thesis
        proof (cases herr)
          case (Some e)
          note he = hd [unfolded Some]
          obtain w3 mres where mb0: "net_MarshalBody X \<lparr>Token = '''', Err = ErrServerFault\<rparr> w2 = (w3, mres)"
            by (cases "net_MarshalBody X \<lparr>Token = '''', Err = ErrServerFault\<rparr> w2") auto
          show thesis
          proof (cases mres)
            case None
            note mb = mb0 [unfolded None]
            from rd ps se he mb have "R = login_exit st audit r w3 None
                         [LogError [Str ''routeAdminLogin'', Str ''msg'', Str ''Problem decoding password hash'',
                                    Str ''err'', ErrorText e]]
                         (Some ''failed to marshal response body'')"
              unfolding R_def routeAdminLogin_def login_exit_def by (simp add: Let_def hmac_Equal_def)
            with rd ps se he mb show thesis by (rule hash_bad_unsent)
          next
            case (Some responseBody)
            note mb = mb0 [unfolded Some]
            from rd ps se he mb have "R = login_exit st audit r (net_Respond X 500 responseBody w3) (Some (500, responseBody))
                         [LogError [Str ''routeAdminLogin'', Str ''msg'', Str ''Problem decoding password hash'',
                                    Str ''err'', ErrorText e],
                          LogInfo [Str ''routeAdminLogin'', Str ''msg'', Str ''OK'']]
                         (Some ''failed to decode password hash'')"
              unfolding R_def routeAdminLogin_def login_exit_def by (simp add: Let_def hmac_Equal_def)
            with rd ps se he mb show thesis by (rule hash_bad)
          qed
        next
          case None
          note he = hd [unfolded None]
          show thesis
          proof (cases "pbkdf2_Key X (Password request) s 600000 32 = b")
            case False
            note eq = this
            obtain w3 mres where mb0: "net_MarshalBody X \<lparr>Token = '''', Err = ErrUnauthorized\<rparr> w2 = (w3, mres)"
              by (cases "net_MarshalBody X \<lparr>Token = '''', Err = ErrUnauthorized\<rparr> w2") auto
            show thesis
            proof (cases mres)
              case None
              note mb = mb0 [unfolded None]
              from rd ps se he eq mb have "R = login_exit st audit r w3 None
                           [LogInfo [Str ''routeAdminLogin'', Str ''msg'', Str ''Invalid password'']]
                           (Some ''failed to marshal response body'')"
                unfolding R_def routeAdminLogin_def login_exit_def by (simp add: Let_def hmac_Equal_def)
              with rd ps se he eq mb show thesis by (rule mismatch_unsent)
            next
              case (Some responseBody)
              note mb = mb0 [unfolded Some]
              from rd ps se he eq mb have "R = login_exit st audit r (net_Respond X 401 responseBody w3) (Some (401, responseBody))
                           [LogInfo [Str ''routeAdminLogin'', Str ''msg'', Str ''Invalid password''],
                            LogInfo [Str ''routeAdminLogin'', Str ''msg'', Str ''unauthorized'']]
                           (Some ''invalid password'')"
                unfolding R_def routeAdminLogin_def login_exit_def by (simp add: Let_def hmac_Equal_def)
              with rd ps se he eq mb show thesis by (rule mismatch)
            qed
          next
            case True
            note eq = this
            show thesis
            proof (cases "AdminToken st = ''''")
              case True
              note tk = this
              obtain w3 mres where mb0: "net_MarshalBody X \<lparr>Token = '''', Err = ErrServerFault\<rparr> w2 = (w3, mres)"
                by (cases "net_MarshalBody X \<lparr>Token = '''', Err = ErrServerFault\<rparr> w2") auto
              show thesis
              proof (cases mres)
                case None
                note mb = mb0 [unfolded None]
                from rd ps se he eq tk mb have "R = login_exit st audit r w3 None
                             [LogError [Str ''routeAdminLogin'', Str ''msg'', Str ''Admin token not set'']]
                             (Some ''failed to marshal response body'')"
                  unfolding R_def routeAdminLogin_def login_exit_def by (simp add: Let_def hmac_Equal_def)
                with rd ps se he eq tk mb show thesis by (rule no_token_unsent)
              next
                case (Some responseBody)
                note mb = mb0 [unfolded Some]
                from rd ps se he eq tk mb have "R = login_exit st audit r (net_Respond X 500 responseBody w3) (Some (500, responseBody))
                             [LogError [Str ''routeAdminLogin'', Str ''msg'', Str ''Admin token not set''],
                              LogInfo [Str ''routeAdminLogin'', Str ''msg'', Str ''unauthorized'']]
                             (Some ''admin token not set'')"
                  unfolding R_def routeAdminLogin_def login_exit_def by (simp add: Let_def hmac_Equal_def)
                with rd ps se he eq tk mb show thesis by (rule no_token)
              qed
            next
              case False
              note tk = this
              obtain w3 signedToken where jw: "net_CreateJwt X (AdminToken st) w2 = (w3, signedToken)"
                by (cases "net_CreateJwt X (AdminToken st) w2") auto
              show thesis
              proof (cases "signedToken = ''''")
                case True
                note sg = this
                from rd ps se he eq tk jw sg have "R = login_exit st audit r w3 None
                             []
                             (Some ''failed to sign token'')"
                  unfolding R_def routeAdminLogin_def login_exit_def by (simp add: Let_def hmac_Equal_def)
                with rd ps se he eq tk jw sg show thesis by (rule sign_fail)
              next
                case False
                note sg = this
                obtain w4 mres where mb0: "net_MarshalBody X \<lparr>Token = signedToken, Err = ErrNone\<rparr> w3 = (w4, mres)"
                  by (cases "net_MarshalBody X \<lparr>Token = signedToken, Err = ErrNone\<rparr> w3") auto
                show thesis
                proof (cases mres)
                  case None
                  note mb = mb0 [unfolded None]
                  from rd ps se he eq tk jw sg mb have "R = login_exit st audit r w4 None
                               []
                               (Some ''failed to marshal response body'')"
                    unfolding R_def routeAdminLogin_def login_exit_def by (simp add: Let_def hmac_Equal_def)
                  with rd ps se he eq tk jw sg mb show thesis by (rule ok_unsent)
                next
                  case (Some responseBody)
                  note mb = mb0 [unfolded Some]
                  from rd ps se he eq tk jw sg mb have "R = login_exit st audit r (net_Respond X 200 responseBody w4) (Some (200, responseBody))
                               [LogInfo [Str ''routeAdminLogin'', Str ''msg'', Str ''authorized'']]
                               None"
                    unfolding R_def routeAdminLogin_def login_exit_def by (simp add: Let_def hmac_Equal_def)
                  with rd ps se he eq tk jw sg mb show thesis by (rule ok)
                qed
              qed
            qed
          qed
        qed
      qed
    qed
  qed
qed

section \<open>Bootstrap and login: supporting facts\<close>

text \<open>
  \<^verbatim>\<open>updateStateForInit\<close> returns exactly when the configured hash length is not
  negative, and then it has stored the new token and the new credentials.
\<close>

lemma updateStateForInit_panics:
  "updateStateForInit X password adminTokenBytes salt st = Inl Panic \<longleftrightarrow> env_ShaHashLength X < 0"
  by (simp add: updateStateForInit_def Let_def)

lemma updateStateForInit_returns:
  "updateStateForInit X password adminTokenBytes salt st = Inr st' \<longleftrightarrow>
     0 \<le> env_ShaHashLength X \<and>
     st' = st\<lparr>adminToken := ''spike.'' @ adminTokenBytes,
              adminCredentials :=
                \<lparr>PasswordHash = EncodeToString (pbkdf2_Key X password salt
                                  (env_Pbkdf2IterationCount X) (env_ShaHashLength X)),
                 Salt = EncodeToString salt\<rparr>\<rparr>"
  by (auto simp: updateStateForInit_def SetAdminCredentials_def SetAdminToken_def Let_def)

lemma init_creds:
  assumes "updateStateForInit X password adminTokenBytes salt st = Inr st'"
  shows "AdminCredentials st' =
     \<lparr>PasswordHash = EncodeToString (pbkdf2_Key X password salt
                       (env_Pbkdf2IterationCount X) (env_ShaHashLength X)),
      Salt = EncodeToString salt\<rparr>"
  using assms by (simp add: updateStateForInit_returns AdminCredentials_def)

lemma init_token:
  assumes "updateStateForInit X password adminTokenBytes salt st = Inr st'"
  shows "AdminToken st' = ''spike.'' @ adminTokenBytes"
  using assms by (simp add: updateStateForInit_returns AdminToken_def)

lemma EncodeToString_inject: "EncodeToString a = EncodeToString b \<Longrightarrow> a = b"
proof -
  assume "EncodeToString a = EncodeToString b"
  then have "DecodeString (EncodeToString a) = DecodeString (EncodeToString b)" by simp
  then show "a = b" by (simp add: DecodeString_EncodeToString)
qed

text \<open>
  A derivation with outputs of one fixed length cannot tell all passwords apart: there
  are infinitely many passwords and finitely many outputs. So a statement about every
  password other than the right one has to speak of the derived hash, not of the password.
\<close>

lemma fixed_length_derivation_collides:
  fixes derive :: "string \<Rightarrow> bytes"
  assumes "\<And>p. length (derive p) = n"
  shows "\<exists>p p'. p \<noteq> p' \<and> derive p = derive p'"
proof (rule ccontr)
  assume "\<not> (\<exists>p p'. p \<noteq> p' \<and> derive p = derive p')"
  then have "inj derive" by (auto simp: inj_on_def)
  have "range derive \<subseteq> {xs. set xs \<subseteq> (UNIV :: char set) \<and> length xs = n}"
    using assms by auto
  moreover have "finite {xs. set xs \<subseteq> (UNIV :: char set) \<and> length xs = n}"
    by (rule finite_lists_length_eq) simp
  ultimately have "finite (range derive)" by (rule finite_subset)
  then have "finite (UNIV :: string set)" using \<open>inj derive\<close> by (rule finite_imageD)
  then show False by (simp add: infinite_UNIV_listI)
qed

lemma demo_pbkdf2_length: "length (demo_pbkdf2 p s i n) = nat n"
  unfolding demo_pbkdf2_def by (simp add: min_def)

text \<open>
  With the configured parameters equal to the constants of the login handler, bootstrap
  and login agree: bootstrap returns, and a login with the bootstrap password on the
  bootstrapped state succeeds (the admin token \<^verbatim>\<open>"spike." + adminTokenBytes\<close> is never
  empty), provided the token is signed and the response marshalled.
\<close>

lemma bootstrap_then_login:
  assumes "env_Pbkdf2IterationCount X = 600000" and "env_ShaHashLength X = 32"
    and "net_ReadRequestBody X r w = (w1, Some requestBody)"
    and "net_HandleRequest X requestBody w1 \<lparr>Token = '''', Err = ErrBadInput\<rparr>
           = (w2, Some \<lparr>Password = password\<rparr>)"
    and "net_CreateJwt X (''spike.'' @ adminTokenBytes) w2 = (w3, signedToken)"
    and "signedToken \<noteq> ''''"
    and "net_MarshalBody X \<lparr>Token = signedToken, Err = ErrNone\<rparr> w3 = (w4, Some tokenBody)"
  shows "\<exists>st'. updateStateForInit X password adminTokenBytes salt st = Inr st'
    \<and> responded (routeAdminLogin X st' audit r w) = Some (200, tokenBody)
    \<and> writer_after (routeAdminLogin X st' audit r w) = net_Respond X 200 tokenBody w4
    \<and> returned (routeAdminLogin X st' audit r w) = None"
proof -
  obtain st' where init: "updateStateForInit X password adminTokenBytes salt st = Inr st'"
    using assms(2) by (simp add: updateStateForInit_returns)
  have ds: "DecodeString (Salt (AdminCredentials st')) = (salt, None)"
    by (simp add: init_creds [OF init] DecodeString_EncodeToString)
  have dh: "DecodeString (PasswordHash (AdminCredentials st'))
      = (pbkdf2_Key X password salt 600000 32, None)"
    by (simp add: init_creds [OF init] DecodeString_EncodeToString assms(1,2))
  have tk: "AdminToken st' = ''spike.'' @ adminTokenBytes"
    by (rule init_token [OF init])
  have "responded (routeAdminLogin X st' audit r w) = Some (200, tokenBody)
      \<and> writer_after (routeAdminLogin X st' audit r w) = net_Respond X 200 tokenBody w4
      \<and> returned (routeAdminLogin X st' audit r w) = None"
    using assms(3-7) ds dh tk
    by (cases rule: routeAdminLogin_paths [where X = X and r = r and st = st' and audit = audit
          and w = w])
       (auto simp: login_exit_def)
  with init show ?thesis by blast
qed

section \<open>Keeper: supporting facts\<close>

lemma wroteHeader_WriteHeader:
  "wroteHeader (WriteHeader statusCode w) =
     (case wroteHeader w of None \<Rightarrow> Some statusCode | Some c \<Rightarrow> Some c)"
  by (simp add: WriteHeader_def split: option.split)

lemma written_WriteHeader: "written (WriteHeader statusCode w) = written w"
  by (simp add: WriteHeader_def)

lemma wroteHeader_io_WriteString:
  "wroteHeader (fst (io_WriteString w s)) =
     (case wroteHeader w of None \<Rightarrow> Some 200 | Some c \<Rightarrow> Some c)"
  by (simp add: io_WriteString_def Let_def wroteHeader_WriteHeader)

lemma written_io_WriteString: "written (fst (io_WriteString w s)) = written w @ s"
  by (simp add: io_WriteString_def Let_def written_WriteHeader)

text \<open>The handler only reads the Keeper's state.\<close>

lemma routeShow_keeper_after: "keeper_after (routeShow K ks r w) = ks"
  unfolding routeShow_def
  by (simp add: Let_def split: prod.split option.split)

section \<open>Recovery: supporting facts\<close>

lemma count_list_two: "a \<noteq> b \<Longrightarrow> count_list xs a + count_list xs b \<le> length xs"
  by (induction xs) auto

lemma count_successful_values:
  "count_list (successful_values replies) K =
     length (filter (\<lambda>x. reply_error x = None \<and> reply_key x \<noteq> '''' \<and> reply_key x = K) replies)"
  by (induction replies) (auto simp: successful_values_def)

lemma length_successful_values: "length (successful_values replies) \<le> length replies"
  by (simp add: successful_values_def)

lemma filter_distinct_single:
  assumes "distinct xs" and "k \<in> set xs" and "P k" and "\<And>x. x \<in> set xs \<Longrightarrow> P x \<Longrightarrow> x = k"
  shows "filter P xs = [k]"
  using assms
proof (induction xs)
  case Nil
  then show ?case by simp
next
  case (Cons x xs)
  have d: "distinct xs" and nx: "x \<notin> set xs"
    using Cons.prems(1) by simp_all
  have only: "\<And>y. y \<in> set xs \<Longrightarrow> P y \<Longrightarrow> y = k"
    by (rule Cons.prems(4)) simp_all
  show ?case
  proof (cases "x = k")
    case True
    have "\<forall>y\<in>set xs. \<not> P y"
    proof
      fix y
      assume y: "y \<in> set xs"
      show "\<not> P y"
      proof
        assume "P y"
        with y have "y = k" by (rule only)
        with y nx True show False by simp
      qed
    qed
    then have "filter P xs = []" by (simp add: filter_empty_conv)
    with True Cons.prems(3) show ?thesis by simp
  next
    case False
    have "\<not> P x"
    proof
      assume "P x"
      have "x = k" by (rule Cons.prems(4)) (simp, fact)
      with False show False by simp
    qed
    moreover have "k \<in> set xs"
      using Cons.prems(2) False by simp
    then have "filter P xs = [k]"
      using d Cons.prems(3) only by (intro Cons.IH)
    ultimately show ?thesis by simp
  qed
qed

text \<open>A strict majority is unique: two different values cannot both reach the threshold.\<close>

lemma quorum_unique:
  assumes "quorum_threshold (length replies) \<le> count_list (successful_values replies) a"
    and "quorum_threshold (length replies) \<le> count_list (successful_values replies) b"
  shows "a = b"
proof (rule ccontr)
  assume "a \<noteq> b"
  then have "count_list (successful_values replies) a + count_list (successful_values replies) b
      \<le> length (successful_values replies)"
    by (rule count_list_two)
  also have "\<dots> \<le> length replies" by (rule length_successful_values)
  finally have "2 * quorum_threshold (length replies) \<le> length replies"
    using assms by linarith
  then show False by (simp add: quorum_threshold_def)
qed

lemma Recover_Inr_iff:
  "Recover replies = Inr K \<longleftrightarrow>
     quorum_threshold (length replies) \<le> count_list (successful_values replies) K"
proof
  assume r: "Recover replies = Inr K"
  define winners where "winners =
    filter (\<lambda>k. quorum_threshold (length replies) \<le> count_list (successful_values replies) k)
      (remdups (successful_values replies))"
  from r have "winners = [K]"
    unfolding Recover_def Let_def winners_def [symmetric]
    by (auto split: list.splits)
  then have "K \<in> set winners" by simp
  then show "quorum_threshold (length replies) \<le> count_list (successful_values replies) K"
    unfolding winners_def by simp
next
  assume q: "quorum_threshold (length replies) \<le> count_list (successful_values replies) K"
  have "0 < quorum_threshold (length replies)" by (simp add: quorum_threshold_def)
  with q have "0 < count_list (successful_values replies) K" by linarith
  then have mem: "K \<in> set (remdups (successful_values replies))"
    using count_list_0_iff [of "successful_values replies" K] by auto
  have "filter (\<lambda>k. quorum_threshold (length replies) \<le> count_list (successful_values replies) k)
      (remdups (successful_values replies)) = [K]"
  proof (rule filter_distinct_single)
    show "distinct (remdups (successful_values replies))" by simp
    show "K \<in> set (remdups (successful_values replies))" by (rule mem)
    show "quorum_threshold (length replies) \<le> count_list (successful_values replies) K" by (rule q)
    fix x
    assume "quorum_threshold (length replies) \<le> count_list (successful_values replies) x"
    then show "x = K" using q by (rule quorum_unique)
  qed
  then show "Recover replies = Inr K"
    by (simp add: Recover_def Let_def)
qed

lemma Recover_total: "Recover replies = Inl RecoveryQuorumFailure \<or> (\<exists>K. Recover replies = Inr K)"
  by (simp add: Recover_def Let_def split: list.split)

section \<open>The helpers from the spec: supporting facts\<close>

lemma wroteHeader_spec_Respond:
  "wroteHeader (spec_Respond statusCode body w) =
     (case wroteHeader w of None \<Rightarrow> Some statusCode | Some c \<Rightarrow> Some c)"
  by (simp add: spec_Respond_def wroteHeader_io_WriteString wroteHeader_WriteHeader
      split: option.split)

lemma written_spec_Respond: "written (spec_Respond statusCode body w) = written w @ body"
  by (simp add: spec_Respond_def written_io_WriteString written_WriteHeader)

lemma spec_ReadRequestBody_Some:
  "spec_ReadRequestBody io r w = (w1, Some requestBody) \<longleftrightarrow>
     io_read io r = Some requestBody \<and> w1 = w"
  by (auto simp: spec_ReadRequestBody_def split: option.splits)

lemma spec_ReadRequestBody_None:
  "spec_ReadRequestBody io r w = (w1, None) \<longleftrightarrow>
     io_read io r = None \<and> w1 = spec_Respond 400 (io_code_body io ErrBadInput) w"
  by (auto simp: spec_ReadRequestBody_def split: option.splits)

lemma spec_HandleRequest_Some:
  "spec_HandleRequest io requestBody w fallback = (w1, Some request) \<longleftrightarrow>
     io_parse io requestBody = Some request \<and> w1 = w"
  by (auto simp: spec_HandleRequest_def split: option.splits)

lemma spec_HandleRequest_None:
  "spec_HandleRequest io requestBody w fallback = (w1, None) \<longleftrightarrow>
     io_parse io requestBody = None \<and> w1 = spec_Respond 400 (io_code_body io (Err fallback)) w"
  by (auto simp: spec_HandleRequest_def split: option.splits)

lemma spec_MarshalBody_Some:
  "spec_MarshalBody io res w = (w1, Some body) \<longleftrightarrow> io_marshal io res = Some body \<and> w1 = w"
  by (auto simp: spec_MarshalBody_def split: option.splits)

lemma spec_MarshalBody_None:
  "spec_MarshalBody io res w = (w1, None) \<longleftrightarrow>
     io_marshal io res = None \<and> w1 = spec_Respond 500 (io_code_body io ErrServerFault) w"
  by (auto simp: spec_MarshalBody_def split: option.splits)

lemma spec_CreateJwt_eq:
  "spec_CreateJwt io token w = (w1, signedToken) \<longleftrightarrow>
     signedToken = io_sign io token \<and>
     w1 = (if io_sign io token = '''' then spec_Respond 500 (io_code_body io ErrServerFault) w else w)"
  by (auto simp: spec_CreateJwt_def)

lemmas spec_helper_simps =
  spec_ReadRequestBody_Some spec_ReadRequestBody_None spec_HandleRequest_Some
  spec_HandleRequest_None spec_MarshalBody_Some spec_MarshalBody_None spec_CreateJwt_eq
  wroteHeader_spec_Respond written_spec_Respond

section \<open>The claims\<close>

text \<open>
  Claim C1. With \<open>N\<close> the number of configured Keepers (one reply each) and
  \<open>T = N div 2 + 1\<close>, \<^verbatim>\<open>Recover\<close> returns the key \<open>K\<close> exactly when at least \<open>T\<close> replies
  are successful, non-empty and carry \<open>K\<close>, and it fails exactly when no value has that many
  replies. For three Keepers (\<open>T = 2\<close>): replies \<open>A, A, B\<close> with \<open>A\<close> non-empty give \<open>A\<close>;
  three distinct values fail; and \<open>A\<close>, an empty value and an error fail.
\<close>

theorem recover_quorum:
  "(Recover replies = Inr K \<longleftrightarrow>
      quorum_threshold (length replies) \<le>
        length (filter (\<lambda>x. reply_error x = None \<and> reply_key x \<noteq> '''' \<and> reply_key x = K) replies))
   \<and> (Recover replies = Inl RecoveryQuorumFailure \<longleftrightarrow>
      (\<forall>V. length (filter (\<lambda>x. reply_error x = None \<and> reply_key x \<noteq> '''' \<and> reply_key x = V) replies)
            < quorum_threshold (length replies)))
   \<and> quorum_threshold 3 = 2
   \<and> (A \<noteq> '''' \<longrightarrow>
        Recover [\<lparr>reply_endpoint = e1, reply_key = A, reply_error = None\<rparr>,
                 \<lparr>reply_endpoint = e2, reply_key = A, reply_error = None\<rparr>,
                 \<lparr>reply_endpoint = e3, reply_key = B, reply_error = None\<rparr>] = Inr A)
   \<and> (A \<noteq> B \<and> A \<noteq> C \<and> B \<noteq> C \<longrightarrow>
        Recover [\<lparr>reply_endpoint = e1, reply_key = A, reply_error = None\<rparr>,
                 \<lparr>reply_endpoint = e2, reply_key = B, reply_error = None\<rparr>,
                 \<lparr>reply_endpoint = e3, reply_key = C, reply_error = None\<rparr>]
          = Inl RecoveryQuorumFailure)
   \<and> Recover [\<lparr>reply_endpoint = e1, reply_key = A, reply_error = None\<rparr>,
               \<lparr>reply_endpoint = e2, reply_key = '''', reply_error = None\<rparr>,
               \<lparr>reply_endpoint = e3, reply_key = D, reply_error = Some err\<rparr>]
        = Inl RecoveryQuorumFailure"
proof -
  have main: "\<And>rs V. Recover rs = Inr V \<longleftrightarrow>
      quorum_threshold (length rs) \<le>
        length (filter (\<lambda>x. reply_error x = None \<and> reply_key x \<noteq> '''' \<and> reply_key x = V) rs)"
    by (simp add: Recover_Inr_iff count_successful_values)
  have fails: "\<And>rs. Recover rs = Inl RecoveryQuorumFailure \<longleftrightarrow>
      (\<forall>V. length (filter (\<lambda>x. reply_error x = None \<and> reply_key x \<noteq> '''' \<and> reply_key x = V) rs)
            < quorum_threshold (length rs))"
  proof -
    fix rs
    have "Recover rs = Inl RecoveryQuorumFailure \<longleftrightarrow> (\<forall>V. Recover rs \<noteq> Inr V)"
      using Recover_total [of rs] by auto
    then show "Recover rs = Inl RecoveryQuorumFailure \<longleftrightarrow>
      (\<forall>V. length (filter (\<lambda>x. reply_error x = None \<and> reply_key x \<noteq> '''' \<and> reply_key x = V) rs)
            < quorum_threshold (length rs))"
      by (simp add: main not_le)
  qed
  have t3: "quorum_threshold 3 = 2" by (simp add: quorum_threshold_def)
  have aab: "A \<noteq> '''' \<longrightarrow>
        Recover [\<lparr>reply_endpoint = e1, reply_key = A, reply_error = None\<rparr>,
                 \<lparr>reply_endpoint = e2, reply_key = A, reply_error = None\<rparr>,
                 \<lparr>reply_endpoint = e3, reply_key = B, reply_error = None\<rparr>] = Inr A"
    by (simp add: main quorum_threshold_def)
  have abc: "A \<noteq> B \<and> A \<noteq> C \<and> B \<noteq> C \<longrightarrow>
        Recover [\<lparr>reply_endpoint = e1, reply_key = A, reply_error = None\<rparr>,
                 \<lparr>reply_endpoint = e2, reply_key = B, reply_error = None\<rparr>,
                 \<lparr>reply_endpoint = e3, reply_key = C, reply_error = None\<rparr>]
          = Inl RecoveryQuorumFailure"
    by (auto simp: fails quorum_threshold_def)
  have aee: "Recover [\<lparr>reply_endpoint = e1, reply_key = A, reply_error = None\<rparr>,
               \<lparr>reply_endpoint = e2, reply_key = '''', reply_error = None\<rparr>,
               \<lparr>reply_endpoint = e3, reply_key = D, reply_error = Some err\<rparr>]
        = Inl RecoveryQuorumFailure"
    by (auto simp: fails quorum_threshold_def)
  from main [of replies K] fails [of replies] t3 aab abc aee show ?thesis by blast
qed

theorem recover_quorum_witness:
  "''key-A'' \<noteq> ''''
   \<and> Recover [\<lparr>reply_endpoint = ''keeper-1'', reply_key = ''key-A'', reply_error = None\<rparr>,
               \<lparr>reply_endpoint = ''keeper-2'', reply_key = ''key-A'', reply_error = None\<rparr>,
               \<lparr>reply_endpoint = ''keeper-3'', reply_key = ''key-B'', reply_error = None\<rparr>]
        = Inr ''key-A''
   \<and> ''key-A'' \<noteq> ''key-B'' \<and> ''key-A'' \<noteq> ''key-C'' \<and> ''key-B'' \<noteq> ''key-C''
   \<and> Recover [\<lparr>reply_endpoint = ''keeper-1'', reply_key = ''key-A'', reply_error = None\<rparr>,
               \<lparr>reply_endpoint = ''keeper-2'', reply_key = ''key-B'', reply_error = None\<rparr>,
               \<lparr>reply_endpoint = ''keeper-3'', reply_key = ''key-C'', reply_error = None\<rparr>]
        = Inl RecoveryQuorumFailure"
proof -
  have a: "''key-A'' \<noteq> ''''" by simp
  have d: "''key-A'' \<noteq> ''key-B'' \<and> ''key-A'' \<noteq> ''key-C'' \<and> ''key-B'' \<noteq> ''key-C''" by simp
  note q = recover_quorum [of "[]" "''''" "''key-A''" "''keeper-1''" "''keeper-2''" "''keeper-3''"
      "''key-B''" "''key-C''" "''''" "''''"]
  from q a have 1: "Recover [\<lparr>reply_endpoint = ''keeper-1'', reply_key = ''key-A'', reply_error = None\<rparr>,
               \<lparr>reply_endpoint = ''keeper-2'', reply_key = ''key-A'', reply_error = None\<rparr>,
               \<lparr>reply_endpoint = ''keeper-3'', reply_key = ''key-B'', reply_error = None\<rparr>]
        = Inr ''key-A''"
    by blast
  from q d have 2: "Recover [\<lparr>reply_endpoint = ''keeper-1'', reply_key = ''key-A'', reply_error = None\<rparr>,
               \<lparr>reply_endpoint = ''keeper-2'', reply_key = ''key-B'', reply_error = None\<rparr>,
               \<lparr>reply_endpoint = ''keeper-3'', reply_key = ''key-C'', reply_error = None\<rparr>]
        = Inl RecoveryQuorumFailure"
    by blast
  from a 1 d 2 show ?thesis by (simp only: simp_thms)
qed

text \<open>
  Claim C2 does not hold on the code: bootstrap derives the hash with the configured
  \<^verbatim>\<open>env.Pbkdf2IterationCount()\<close> and \<^verbatim>\<open>env.ShaHashLength()\<close>, login with the constants
  600000 and 32 written in the handler. Whenever the derivation returns \<open>keyLen\<close> bytes (as
  \<^verbatim>\<open>pbkdf2.Key\<close> does) and the configured length is not 32 (and not negative, so that
  bootstrap returns), the hash stored at bootstrap is not the hash login computes for the
  same password and salt, and login with the right password is answered 401.
\<close>

theorem bootstrap_login_length_mismatch:
  assumes "length (pbkdf2_Key X password salt (env_Pbkdf2IterationCount X) (env_ShaHashLength X))
             = nat (env_ShaHashLength X)"
    and "length (pbkdf2_Key X password salt 600000 32) = 32"
    and "0 \<le> env_ShaHashLength X" and "env_ShaHashLength X \<noteq> 32"
    and "net_ReadRequestBody X r w = (w1, Some requestBody)"
    and "net_HandleRequest X requestBody w1 \<lparr>Token = '''', Err = ErrBadInput\<rparr>
           = (w2, Some \<lparr>Password = password\<rparr>)"
    and "net_MarshalBody X \<lparr>Token = '''', Err = ErrUnauthorized\<rparr> w2 = (w3, Some refusal)"
  shows
    "\<exists>st'. updateStateForInit X password adminTokenBytes salt st = Inr st'
       \<and> PasswordHash (AdminCredentials st') \<noteq> EncodeToString (pbkdf2_Key X password salt 600000 32)
       \<and> responded (routeAdminLogin X st' audit r w) = Some (401, refusal)
       \<and> writer_after (routeAdminLogin X st' audit r w) = net_Respond X 401 refusal w3
       \<and> returned (routeAdminLogin X st' audit r w) = Some ''invalid password''"
proof -
  obtain st' where init: "updateStateForInit X password adminTokenBytes salt st = Inr st'"
    using assms(3) by (simp add: updateStateForInit_returns)
  define stored where
    "stored = pbkdf2_Key X password salt (env_Pbkdf2IterationCount X) (env_ShaHashLength X)"
  have "length stored = nat (env_ShaHashLength X)"
    unfolding stored_def by (rule assms(1))
  then have "length stored \<noteq> length (pbkdf2_Key X password salt 600000 32)"
    using assms(2,3,4) by simp
  then have ne: "pbkdf2_Key X password salt 600000 32 \<noteq> stored"
    by auto
  have ds: "DecodeString (Salt (AdminCredentials st')) = (salt, None)"
    by (simp add: init_creds [OF init] DecodeString_EncodeToString)
  have dh: "DecodeString (PasswordHash (AdminCredentials st')) = (stored, None)"
    unfolding stored_def by (simp add: init_creds [OF init] DecodeString_EncodeToString)
  have hash: "PasswordHash (AdminCredentials st') = EncodeToString stored"
    unfolding stored_def by (simp add: init_creds [OF init])
  have differs: "PasswordHash (AdminCredentials st')
      \<noteq> EncodeToString (pbkdf2_Key X password salt 600000 32)"
    unfolding hash using ne by (auto dest: EncodeToString_inject)
  have "responded (routeAdminLogin X st' audit r w) = Some (401, refusal)
      \<and> writer_after (routeAdminLogin X st' audit r w) = net_Respond X 401 refusal w3
      \<and> returned (routeAdminLogin X st' audit r w) = Some ''invalid password''"
    using assms(5,6,7) ds dh ne
    by (cases rule: routeAdminLogin_paths [where X = X and r = r and st = st' and audit = audit
          and w = w])
       (auto simp: login_exit_def)
  with init differs show ?thesis by blast
qed

theorem bootstrap_login_length_mismatch_witness:
  "length (pbkdf2_Key (demo_externals\<lparr>env_ShaHashLength := 64\<rparr>) ''hunter2'' ''NaCl''
      (env_Pbkdf2IterationCount (demo_externals\<lparr>env_ShaHashLength := 64\<rparr>))
      (env_ShaHashLength (demo_externals\<lparr>env_ShaHashLength := 64\<rparr>)))
     = nat (env_ShaHashLength (demo_externals\<lparr>env_ShaHashLength := 64\<rparr>))
   \<and> length (pbkdf2_Key (demo_externals\<lparr>env_ShaHashLength := 64\<rparr>) ''hunter2'' ''NaCl'' 600000 32) = 32
   \<and> 0 \<le> env_ShaHashLength (demo_externals\<lparr>env_ShaHashLength := 64\<rparr>)
   \<and> env_ShaHashLength (demo_externals\<lparr>env_ShaHashLength := 64\<rparr>) \<noteq> 32
   \<and> (\<exists>st'. updateStateForInit (demo_externals\<lparr>env_ShaHashLength := 64\<rparr>)
               ''hunter2'' ''0123'' ''NaCl'' demo_state = Inr st'
        \<and> responded (routeAdminLogin (demo_externals\<lparr>env_ShaHashLength := 64\<rparr>) st'
             demo_audit (demo_request ''hunter2'') fresh_writer)
           = Some (401, ''token=;err=unauthorized''))"
proof -
  have l1: "length (pbkdf2_Key (demo_externals\<lparr>env_ShaHashLength := 64\<rparr>) ''hunter2'' ''NaCl''
      (env_Pbkdf2IterationCount (demo_externals\<lparr>env_ShaHashLength := 64\<rparr>))
      (env_ShaHashLength (demo_externals\<lparr>env_ShaHashLength := 64\<rparr>)))
     = nat (env_ShaHashLength (demo_externals\<lparr>env_ShaHashLength := 64\<rparr>))"
    by (simp add: demo_externals_def demo_pbkdf2_length)
  have l2: "length (pbkdf2_Key (demo_externals\<lparr>env_ShaHashLength := 64\<rparr>) ''hunter2'' ''NaCl''
      600000 32) = 32"
    by (simp add: demo_externals_def demo_pbkdf2_length)
  have n0: "0 \<le> env_ShaHashLength (demo_externals\<lparr>env_ShaHashLength := 64\<rparr>)" by simp
  have n32: "env_ShaHashLength (demo_externals\<lparr>env_ShaHashLength := 64\<rparr>) \<noteq> 32" by simp
  have rd: "net_ReadRequestBody (demo_externals\<lparr>env_ShaHashLength := 64\<rparr>)
      (demo_request ''hunter2'') fresh_writer = (fresh_writer, Some ''hunter2'')"
    by (simp add: demo_externals_def demo_request_def)
  have ps: "net_HandleRequest (demo_externals\<lparr>env_ShaHashLength := 64\<rparr>) ''hunter2'' fresh_writer
       \<lparr>Token = '''', Err = ErrBadInput\<rparr> = (fresh_writer, Some \<lparr>Password = ''hunter2''\<rparr>)"
    by (simp add: demo_externals_def)
  have mb: "net_MarshalBody (demo_externals\<lparr>env_ShaHashLength := 64\<rparr>)
       \<lparr>Token = '''', Err = ErrUnauthorized\<rparr> fresh_writer
       = (fresh_writer, Some ''token=;err=unauthorized'')"
    by (simp add: demo_externals_def demo_marshal_def)
  from bootstrap_login_length_mismatch [OF l1 l2 n0 n32 rd ps mb,
      where adminTokenBytes = "''0123''" and st = demo_state and audit = demo_audit]
  have "\<exists>st'. updateStateForInit (demo_externals\<lparr>env_ShaHashLength := 64\<rparr>)
               ''hunter2'' ''0123'' ''NaCl'' demo_state = Inr st'
        \<and> responded (routeAdminLogin (demo_externals\<lparr>env_ShaHashLength := 64\<rparr>) st'
             demo_audit (demo_request ''hunter2'') fresh_writer)
           = Some (401, ''token=;err=unauthorized'')"
    by blast
  with l1 l2 n0 n32 show ?thesis by (simp only: simp_thms)
qed




text \<open>
  Claim C4, as stated, fails once the helpers answer as the spec says: the three faults
  it lists are not the only ones. In both runs below the stored salt and the stored hash
  decode, and the admin token is set, so none of the three listed faults occurs. In the
  first the password matches and the session token cannot be signed: the handler returns
  \<^verbatim>\<open>failed to sign token\<close> without responding, and the answer is the 500 of
  \<^verbatim>\<open>CreateJwt\<close>. In the second the password is wrong and the response cannot be
  marshalled: the answer is the 500 of \<^verbatim>\<open>MarshalBody\<close>, not a 401.
\<close>

theorem login_other_server_faults_counterexample:
  "DecodeString (Salt (AdminCredentials
      (demo_state\<lparr>adminToken := ''spike.t'', adminCredentials :=
         \<lparr>PasswordHash = EncodeToString (demo_pbkdf2 ''hunter2'' ''NaCl'' 600000 32),
          Salt = EncodeToString ''NaCl''\<rparr>\<rparr>))) = (''NaCl'', None)
   \<and> DecodeString (PasswordHash (AdminCredentials
      (demo_state\<lparr>adminToken := ''spike.t'', adminCredentials :=
         \<lparr>PasswordHash = EncodeToString (demo_pbkdf2 ''hunter2'' ''NaCl'' 600000 32),
          Salt = EncodeToString ''NaCl''\<rparr>\<rparr>)))
       = (demo_pbkdf2 ''hunter2'' ''NaCl'' 600000 32, None)
   \<and> AdminToken (demo_state\<lparr>adminToken := ''spike.t'', adminCredentials :=
         \<lparr>PasswordHash = EncodeToString (demo_pbkdf2 ''hunter2'' ''NaCl'' 600000 32),
          Salt = EncodeToString ''NaCl''\<rparr>\<rparr>) = ''spike.t''
   \<and> wroteHeader (writer_after (routeAdminLogin (spec_helpers demo_io_unsigned demo_externals)
        (demo_state\<lparr>adminToken := ''spike.t'', adminCredentials :=
           \<lparr>PasswordHash = EncodeToString (demo_pbkdf2 ''hunter2'' ''NaCl'' 600000 32),
            Salt = EncodeToString ''NaCl''\<rparr>\<rparr>)
        demo_audit (demo_request ''hunter2'') fresh_writer)) = Some 500
   \<and> written (writer_after (routeAdminLogin (spec_helpers demo_io_unsigned demo_externals)
        (demo_state\<lparr>adminToken := ''spike.t'', adminCredentials :=
           \<lparr>PasswordHash = EncodeToString (demo_pbkdf2 ''hunter2'' ''NaCl'' 600000 32),
            Salt = EncodeToString ''NaCl''\<rparr>\<rparr>)
        demo_audit (demo_request ''hunter2'') fresh_writer)) = ''server_fault''
   \<and> returned (routeAdminLogin (spec_helpers demo_io_unsigned demo_externals)
        (demo_state\<lparr>adminToken := ''spike.t'', adminCredentials :=
           \<lparr>PasswordHash = EncodeToString (demo_pbkdf2 ''hunter2'' ''NaCl'' 600000 32),
            Salt = EncodeToString ''NaCl''\<rparr>\<rparr>)
        demo_audit (demo_request ''hunter2'') fresh_writer) = Some ''failed to sign token''
   \<and> wroteHeader (writer_after (routeAdminLogin (spec_helpers demo_io_unmarshalled demo_externals)
        (demo_state\<lparr>adminToken := ''spike.t'', adminCredentials :=
           \<lparr>PasswordHash = EncodeToString (demo_pbkdf2 ''hunter2'' ''NaCl'' 600000 32),
            Salt = EncodeToString ''NaCl''\<rparr>\<rparr>)
        demo_audit (demo_request ''letmein'') fresh_writer)) = Some 500
   \<and> written (writer_after (routeAdminLogin (spec_helpers demo_io_unmarshalled demo_externals)
        (demo_state\<lparr>adminToken := ''spike.t'', adminCredentials :=
           \<lparr>PasswordHash = EncodeToString (demo_pbkdf2 ''hunter2'' ''NaCl'' 600000 32),
            Salt = EncodeToString ''NaCl''\<rparr>\<rparr>)
        demo_audit (demo_request ''letmein'') fresh_writer)) = ''server_fault''
   \<and> returned (routeAdminLogin (spec_helpers demo_io_unmarshalled demo_externals)
        (demo_state\<lparr>adminToken := ''spike.t'', adminCredentials :=
           \<lparr>PasswordHash = EncodeToString (demo_pbkdf2 ''hunter2'' ''NaCl'' 600000 32),
            Salt = EncodeToString ''NaCl''\<rparr>\<rparr>)
        demo_audit (demo_request ''letmein'') fresh_writer) = Some ''failed to marshal response body''"
proof -
  define st where "st = demo_state\<lparr>adminToken := ''spike.t'', adminCredentials :=
         \<lparr>PasswordHash = EncodeToString (demo_pbkdf2 ''hunter2'' ''NaCl'' 600000 32),
          Salt = EncodeToString ''NaCl''\<rparr>\<rparr>"
  have ds: "DecodeString (Salt (AdminCredentials st)) = (''NaCl'', None)"
    by (simp add: st_def AdminCredentials_def DecodeString_EncodeToString)
  have dh: "DecodeString (PasswordHash (AdminCredentials st))
      = (demo_pbkdf2 ''hunter2'' ''NaCl'' 600000 32, None)"
    by (simp add: st_def AdminCredentials_def DecodeString_EncodeToString)
  have tk: "AdminToken st = ''spike.t''"
    by (simp add: st_def AdminToken_def)
  have kdf: "pbkdf2_Key (spec_helpers demo_io_unsigned demo_externals) = demo_pbkdf2"
    "pbkdf2_Key (spec_helpers demo_io_unmarshalled demo_externals) = demo_pbkdf2"
    by (simp_all add: spec_helpers_def demo_externals_def)
  have kdf0: "pbkdf2_Key demo_externals = demo_pbkdf2"
    by (simp add: demo_externals_def)
  have ne: "demo_pbkdf2 ''letmein'' ''NaCl'' 600000 32 \<noteq> demo_pbkdf2 ''hunter2'' ''NaCl'' 600000 32"
    by (simp add: demo_pbkdf2_def)
  have fresh: "wroteHeader fresh_writer = None" "written fresh_writer = ''''"
    by (simp_all add: fresh_writer_def)
  have unsigned: "wroteHeader (writer_after (routeAdminLogin (spec_helpers demo_io_unsigned demo_externals)
        st demo_audit (demo_request ''hunter2'') fresh_writer)) = Some 500
    \<and> written (writer_after (routeAdminLogin (spec_helpers demo_io_unsigned demo_externals)
        st demo_audit (demo_request ''hunter2'') fresh_writer)) = ''server_fault''
    \<and> returned (routeAdminLogin (spec_helpers demo_io_unsigned demo_externals)
        st demo_audit (demo_request ''hunter2'') fresh_writer) = Some ''failed to sign token''"
    using ds dh tk fresh
    by (cases rule: routeAdminLogin_paths [where X = "spec_helpers demo_io_unsigned demo_externals"
          and r = "demo_request ''hunter2''" and st = st and audit = demo_audit and w = fresh_writer])
       (auto simp: login_exit_def kdf kdf0 spec_helpers_def spec_helper_simps demo_io_unsigned_def
          demo_request_def)
  have unmarshalled: "wroteHeader (writer_after (routeAdminLogin
        (spec_helpers demo_io_unmarshalled demo_externals)
        st demo_audit (demo_request ''letmein'') fresh_writer)) = Some 500
    \<and> written (writer_after (routeAdminLogin (spec_helpers demo_io_unmarshalled demo_externals)
        st demo_audit (demo_request ''letmein'') fresh_writer)) = ''server_fault''
    \<and> returned (routeAdminLogin (spec_helpers demo_io_unmarshalled demo_externals)
        st demo_audit (demo_request ''letmein'') fresh_writer) = Some ''failed to marshal response body''"
    using ds dh tk fresh ne
    by (cases rule: routeAdminLogin_paths [where X = "spec_helpers demo_io_unmarshalled demo_externals"
          and r = "demo_request ''letmein''" and st = st and audit = demo_audit and w = fresh_writer])
       (auto simp: login_exit_def kdf kdf0 spec_helpers_def spec_helper_simps demo_io_unmarshalled_def
          demo_request_def)
  from ds dh tk unsigned unmarshalled show ?thesis
    unfolding st_def by (simp only: simp_thms)
qed

text \<open>
  Claim C4, amended. With the helpers answering as the spec says and a writer nothing has
  been written to, login is answered with status 500 exactly when a server-side fault
  occurs while a request that was read and parsed is handled: the stored salt fails hex
  decoding, or the stored password hash fails hex decoding, or the password matches and
  the admin token is empty, or the password matches and the session token cannot be signed
  or its response cannot be marshalled, or the password is wrong and its response cannot
  be marshalled. In each of these cases the body is the server-fault code alone (the
  marshalled \<^verbatim>\<open>{Err: ErrServerFault}\<close> or the helper's server-fault code), with no text
  of the internal error, and the handler does not respond 401.
\<close>

theorem login_server_fault_exactly:
  assumes "wroteHeader w = None" and "written w = ''''"
  shows
    "(wroteHeader (writer_after (routeAdminLogin (spec_helpers io X) st audit r w)) = Some 500 \<longleftrightarrow>
        (\<exists>requestBody request.
           io_read io r = Some requestBody \<and> io_parse io requestBody = Some request \<and>
           ((\<exists>e. snd (DecodeString (Salt (AdminCredentials st))) = Some e)
            \<or> (\<exists>e. snd (DecodeString (PasswordHash (AdminCredentials st))) = Some e)
            \<or> (if pbkdf2_Key X (Password request) (fst (DecodeString (Salt (AdminCredentials st))))
                     600000 32
                   = fst (DecodeString (PasswordHash (AdminCredentials st)))
                then AdminToken st = ''''
                   \<or> io_sign io (AdminToken st) = ''''
                   \<or> io_marshal io \<lparr>Token = io_sign io (AdminToken st), Err = ErrNone\<rparr> = None
                else io_marshal io \<lparr>Token = '''', Err = ErrUnauthorized\<rparr> = None))))
     \<and> (wroteHeader (writer_after (routeAdminLogin (spec_helpers io X) st audit r w)) = Some 500 \<longrightarrow>
          (written (writer_after (routeAdminLogin (spec_helpers io X) st audit r w))
             = io_code_body io ErrServerFault
           \<or> io_marshal io \<lparr>Token = '''', Err = ErrServerFault\<rparr>
             = Some (written (writer_after (routeAdminLogin (spec_helpers io X) st audit r w))))
          \<and> (\<forall>body. responded (routeAdminLogin (spec_helpers io X) st audit r w) \<noteq> Some (401, body)))"
proof -
  have kdf: "pbkdf2_Key (spec_helpers io X) = pbkdf2_Key X"
    by (simp add: spec_helpers_def)
  show ?thesis
    using assms
    by (cases rule: routeAdminLogin_paths [where X = "spec_helpers io X" and r = r and st = st
          and audit = audit and w = w])
       (auto simp: login_exit_def kdf spec_helpers_def spec_helper_simps)
qed

theorem login_server_fault_exactly_witness:
  "wroteHeader fresh_writer = None \<and> written fresh_writer = ''''
   \<and> io_read demo_io (demo_request ''hunter2'') = Some ''hunter2''
   \<and> io_parse demo_io ''hunter2'' = Some \<lparr>Password = ''hunter2''\<rparr>
   \<and> snd (DecodeString (Salt (AdminCredentials
         (demo_state\<lparr>adminCredentials := \<lparr>PasswordHash = ''00'', Salt = ''zz''\<rparr>\<rparr>))))
       = Some (InvalidByteError CHR ''z'')
   \<and> wroteHeader (writer_after (routeAdminLogin (spec_helpers demo_io demo_externals)
         (demo_state\<lparr>adminCredentials := \<lparr>PasswordHash = ''00'', Salt = ''zz''\<rparr>\<rparr>)
         demo_audit (demo_request ''hunter2'') fresh_writer)) = Some 500
   \<and> io_marshal demo_io \<lparr>Token = '''', Err = ErrServerFault\<rparr> = Some ''token=;err=server_fault''
   \<and> io_code_body demo_io ErrServerFault = ''server_fault''
   \<and> written (writer_after (routeAdminLogin (spec_helpers demo_io demo_externals)
         (demo_state\<lparr>adminCredentials := \<lparr>PasswordHash = ''00'', Salt = ''zz''\<rparr>\<rparr>)
         demo_audit (demo_request ''hunter2'') fresh_writer)) = ''token=;err=server_fault''"
proof -
  define st where "st = demo_state\<lparr>adminCredentials := \<lparr>PasswordHash = ''00'', Salt = ''zz''\<rparr>\<rparr>"
  define R where "R = routeAdminLogin (spec_helpers demo_io demo_externals) st demo_audit
      (demo_request ''hunter2'') fresh_writer"
  have h: "wroteHeader fresh_writer = None" and b: "written fresh_writer = ''''"
    by (simp_all add: fresh_writer_def)
  have rd: "io_read demo_io (demo_request ''hunter2'') = Some ''hunter2''"
    by (simp add: demo_io_def demo_request_def)
  have ps: "io_parse demo_io ''hunter2'' = Some \<lparr>Password = ''hunter2''\<rparr>"
    by (simp add: demo_io_def)
  have bad: "snd (DecodeString (Salt (AdminCredentials st))) = Some (InvalidByteError CHR ''z'')"
    by (simp add: st_def AdminCredentials_def reverseHexTable_def)
  have mb: "io_marshal demo_io \<lparr>Token = '''', Err = ErrServerFault\<rparr> = Some ''token=;err=server_fault''"
    by (simp add: demo_io_def demo_marshal_def)
  have cb: "io_code_body demo_io ErrServerFault = ''server_fault''"
    by (simp add: demo_io_def)
  note inst = login_server_fault_exactly [OF h b, of demo_io demo_externals st demo_audit
      "demo_request ''hunter2''", folded R_def]
  from inst rd ps bad have status: "wroteHeader (writer_after R) = Some 500"
    by blast
  with inst have "written (writer_after R) = io_code_body demo_io ErrServerFault
      \<or> io_marshal demo_io \<lparr>Token = '''', Err = ErrServerFault\<rparr> = Some (written (writer_after R))"
    by blast
  moreover have "written (writer_after R) \<noteq> ''server_fault''"
    using bad rd ps h b unfolding R_def
    by (cases rule: routeAdminLogin_paths [where X = "spec_helpers demo_io demo_externals"
          and r = "demo_request ''hunter2''" and st = st and audit = demo_audit and w = fresh_writer])
       (auto simp: login_exit_def spec_helpers_def spec_helper_simps demo_io_def demo_marshal_def)
  ultimately have body: "written (writer_after R) = ''token=;err=server_fault''"
    using mb cb by simp
  from h b rd ps bad status mb cb body show ?thesis
    unfolding R_def st_def by (simp only: simp_thms)
qed

text \<open>
  Claim C7. At a tick where the root key is empty, \<^verbatim>\<open>Tick\<close> skips the tick silently: it
  pushes nothing, logs nothing and changes no state, and waits for the next case. The run
  over a tick followed by further cases is the run over those cases alone, and after the
  tick alone the world is the one before it, with the loop back in \<^verbatim>\<open>select\<close>.
\<close>

theorem tick_skips_empty_key:
  assumes "RootKey (nexus w) = ''''"
  shows "Tick w (TickerC upd # evs) = Tick w evs
    \<and> Tick w [TickerC upd] = (Selecting, w)"
  using assms by (simp add: Let_def)

theorem tick_skips_empty_key_witness:
  "RootKey (nexus \<lparr>nexus = demo_state, tick_log = [], cache_updates = []\<rparr>) = ''''
   \<and> Tick \<lparr>nexus = demo_state, tick_log = [], cache_updates = []\<rparr>
        [TickerC (Some ''connection refused'')]
     = (Selecting, \<lparr>nexus = demo_state, tick_log = [], cache_updates = []\<rparr>)"
proof -
  have key: "RootKey (nexus \<lparr>nexus = demo_state, tick_log = [], cache_updates = []\<rparr>) = ''''"
    by (simp add: RootKey_def demo_state_def)
  from tick_skips_empty_key [OF key, of "Some ''connection refused''" "[]"]
  have "Tick \<lparr>nexus = demo_state, tick_log = [], cache_updates = []\<rparr>
        [TickerC (Some ''connection refused'')]
     = (Selecting, \<lparr>nexus = demo_state, tick_log = [], cache_updates = []\<rparr>)"
    by blast
  with key show ?thesis by (simp only: simp_thms)
qed

text \<open>
  Claim C8. For every credential record written by \<^verbatim>\<open>updateStateForInit\<close> (that is,
  whenever it returns, with the state it returns), both \<^verbatim>\<open>hex.DecodeString\<close> calls of
  \<^verbatim>\<open>routeAdminLogin\<close> succeed and give back the salt and the hash that were encoded, so a
  login on that state never takes one of the two decode-failure branches: it neither
  returns their errors nor writes their log records. This holds for every key derivation,
  configuration and helper behaviour, at bootstrap (\<open>X\<close>) and at login (\<open>Y\<close>).
\<close>

theorem bootstrap_credentials_decode:
  assumes "updateStateForInit X password adminTokenBytes salt st = Inr st'"
  shows "DecodeString (Salt (AdminCredentials st')) = (salt, None)
   \<and> DecodeString (PasswordHash (AdminCredentials st'))
     = (pbkdf2_Key X password salt (env_Pbkdf2IterationCount X) (env_ShaHashLength X), None)
   \<and> returned (routeAdminLogin Y st' audit r w) \<noteq> Some ''failed to decode salt''
   \<and> returned (routeAdminLogin Y st' audit r w) \<noteq> Some ''failed to decode password hash''
   \<and> (\<forall>e. LogError [Str ''routeAdminLogin'', Str ''msg'', Str ''Problem decoding salt'',
                 Str ''err'', ErrorText e]
          \<notin> set (logged (routeAdminLogin Y st' audit r w)))
   \<and> (\<forall>e. LogError [Str ''routeAdminLogin'', Str ''msg'', Str ''Problem decoding password hash'',
                 Str ''err'', ErrorText e]
          \<notin> set (logged (routeAdminLogin Y st' audit r w)))"
proof -
  have ds: "DecodeString (Salt (AdminCredentials st')) = (salt, None)"
    by (simp add: init_creds [OF assms] DecodeString_EncodeToString)
  have dh: "DecodeString (PasswordHash (AdminCredentials st'))
      = (pbkdf2_Key X password salt (env_Pbkdf2IterationCount X) (env_ShaHashLength X), None)"
    by (simp add: init_creds [OF assms] DecodeString_EncodeToString)
  have "returned (routeAdminLogin Y st' audit r w) \<noteq> Some ''failed to decode salt''
   \<and> returned (routeAdminLogin Y st' audit r w) \<noteq> Some ''failed to decode password hash''
   \<and> (\<forall>e. LogError [Str ''routeAdminLogin'', Str ''msg'', Str ''Problem decoding salt'',
                 Str ''err'', ErrorText e] \<notin> set (logged (routeAdminLogin Y st' audit r w)))
   \<and> (\<forall>e. LogError [Str ''routeAdminLogin'', Str ''msg'', Str ''Problem decoding password hash'',
                 Str ''err'', ErrorText e] \<notin> set (logged (routeAdminLogin Y st' audit r w)))"
    using ds dh
    by (cases rule: routeAdminLogin_paths [where X = Y and r = r and st = st' and audit = audit
          and w = w])
       (simp_all add: login_exit_def)
  with ds dh show ?thesis by simp
qed

theorem bootstrap_credentials_decode_witness:
  "updateStateForInit demo_externals ''hunter2'' ''0123'' ''NaCl'' demo_state
     = Inr (demo_state\<lparr>adminToken := ''spike.0123'',
              adminCredentials :=
                \<lparr>PasswordHash = EncodeToString (demo_pbkdf2 ''hunter2'' ''NaCl'' 600000 32),
                 Salt = EncodeToString ''NaCl''\<rparr>\<rparr>)
   \<and> DecodeString (Salt (AdminCredentials
        (demo_state\<lparr>adminToken := ''spike.0123'',
              adminCredentials :=
                \<lparr>PasswordHash = EncodeToString (demo_pbkdf2 ''hunter2'' ''NaCl'' 600000 32),
                 Salt = EncodeToString ''NaCl''\<rparr>\<rparr>))) = (''NaCl'', None)
   \<and> returned (routeAdminLogin demo_externals
        (demo_state\<lparr>adminToken := ''spike.0123'',
              adminCredentials :=
                \<lparr>PasswordHash = EncodeToString (demo_pbkdf2 ''hunter2'' ''NaCl'' 600000 32),
                 Salt = EncodeToString ''NaCl''\<rparr>\<rparr>)
        demo_audit (demo_request ''hunter2'') fresh_writer) \<noteq> Some ''failed to decode salt''"
proof -
  have init: "updateStateForInit demo_externals ''hunter2'' ''0123'' ''NaCl'' demo_state
     = Inr (demo_state\<lparr>adminToken := ''spike.0123'',
              adminCredentials :=
                \<lparr>PasswordHash = EncodeToString (demo_pbkdf2 ''hunter2'' ''NaCl'' 600000 32),
                 Salt = EncodeToString ''NaCl''\<rparr>\<rparr>)"
    by (simp add: updateStateForInit_returns demo_externals_def)
  from bootstrap_credentials_decode [OF init, of demo_externals demo_audit
      "demo_request ''hunter2''" fresh_writer]
  have "DecodeString (Salt (AdminCredentials
        (demo_state\<lparr>adminToken := ''spike.0123'',
              adminCredentials :=
                \<lparr>PasswordHash = EncodeToString (demo_pbkdf2 ''hunter2'' ''NaCl'' 600000 32),
                 Salt = EncodeToString ''NaCl''\<rparr>\<rparr>))) = (''NaCl'', None)
   \<and> returned (routeAdminLogin demo_externals
        (demo_state\<lparr>adminToken := ''spike.0123'',
              adminCredentials :=
                \<lparr>PasswordHash = EncodeToString (demo_pbkdf2 ''hunter2'' ''NaCl'' 600000 32),
                 Salt = EncodeToString ''NaCl''\<rparr>\<rparr>)
        demo_audit (demo_request ''hunter2'') fresh_writer) \<noteq> Some ''failed to decode salt''"
    by blast
  with init show ?thesis by (simp only: simp_thms)
qed

text \<open>
  Claim C9. Let the body of the request be read with the writer left untouched, on a
  writer nothing has been written to.
  \<^item> When the body fails to unmarshal and \<^verbatim>\<open>HandleRequestError\<close> hands the error back,
    having written at most the status 400 and no body, the response of \<^verbatim>\<open>routeShow\<close>
    is status 400 with an empty body: nothing of the held root key is written.
  \<^item> When the body unmarshals, \<^verbatim>\<open>HandleRequestError\<close> returns \<^verbatim>\<open>nil\<close> and leaves
    the writer untouched, and the response marshals, the response is status 200 with the
    marshalled \<^verbatim>\<open>RootKeyReadResponse\<close> holding whatever key the Keeper holds, the empty
    string included.
  In both cases the Keeper's state is unchanged.
\<close>

theorem show_requires_parsable_request:
  assumes "wroteHeader w = None" and "written w = ''''"
    and "kx_ReadRequestBody K r w = (w, Some body)"
  shows
    "(json_Unmarshal K body = Some e
        \<and> kx_HandleRequestError K w (Some e) = (w', Some e')
        \<and> (wroteHeader w' = None \<or> wroteHeader w' = Some 400) \<and> written w' = ''''
      \<longrightarrow> wroteHeader (writer (routeShow K ks r w)) = Some 400
          \<and> written (writer (routeShow K ks r w)) = ''''
          \<and> keeper_after (routeShow K ks r w) = ks)
     \<and> (json_Unmarshal K body = None
        \<and> kx_HandleRequestError K w None = (w, None)
        \<and> json_Marshal K \<lparr>rkr_RootKey = keeper_RootKey ks\<rparr> = (md, None)
      \<longrightarrow> wroteHeader (writer (routeShow K ks r w)) = Some 200
          \<and> written (writer (routeShow K ks r w)) = md
          \<and> keeper_after (routeShow K ks r w) = ks)"
proof (intro conjI impI)
  assume a: "json_Unmarshal K body = Some e
        \<and> kx_HandleRequestError K w (Some e) = (w', Some e')
        \<and> (wroteHeader w' = None \<or> wroteHeader w' = Some 400) \<and> written w' = ''''"
  have res: "writer (routeShow K ks r w) = fst (io_WriteString (WriteHeader 400 w') '''')"
    unfolding routeShow_def using assms(3) a
    by (simp add: Let_def split: prod.split option.split)
  show "wroteHeader (writer (routeShow K ks r w)) = Some 400"
    unfolding res using a by (auto simp: wroteHeader_io_WriteString wroteHeader_WriteHeader)
  show "written (writer (routeShow K ks r w)) = ''''"
    unfolding res using a by (simp add: written_io_WriteString written_WriteHeader)
  show "keeper_after (routeShow K ks r w) = ks"
    by (rule routeShow_keeper_after)
next
  assume a: "json_Unmarshal K body = None
        \<and> kx_HandleRequestError K w None = (w, None)
        \<and> json_Marshal K \<lparr>rkr_RootKey = keeper_RootKey ks\<rparr> = (md, None)"
  have res: "writer (routeShow K ks r w) = fst (io_WriteString (WriteHeader 200 w) md)"
    unfolding routeShow_def using assms(3) a
    by (simp add: Let_def split: prod.split option.split)
  show "wroteHeader (writer (routeShow K ks r w)) = Some 200"
    unfolding res using assms(1) by (simp add: wroteHeader_io_WriteString wroteHeader_WriteHeader)
  show "written (writer (routeShow K ks r w)) = md"
    unfolding res using assms(2) by (simp add: written_io_WriteString written_WriteHeader)
  show "keeper_after (routeShow K ks r w) = ks"
    by (rule routeShow_keeper_after)
qed

theorem show_requires_parsable_request_witness:
  "wroteHeader fresh_writer = None \<and> written fresh_writer = ''''
   \<and> kx_ReadRequestBody demo_keeper_externals (demo_request ''not json'') fresh_writer
       = (fresh_writer, Some ''not json'')
   \<and> json_Unmarshal demo_keeper_externals ''not json'' = Some ''unexpected end of JSON input''
   \<and> kx_HandleRequestError demo_keeper_externals fresh_writer (Some ''unexpected end of JSON input'')
       = (fresh_writer, Some ''unexpected end of JSON input'')
   \<and> wroteHeader (writer (routeShow demo_keeper_externals \<lparr>keeper_rootKey = ''k''\<rparr>
        (demo_request ''not json'') fresh_writer)) = Some 400
   \<and> written (writer (routeShow demo_keeper_externals \<lparr>keeper_rootKey = ''k''\<rparr>
        (demo_request ''not json'') fresh_writer)) = ''''
   \<and> kx_ReadRequestBody demo_keeper_externals (demo_request ''{}'') fresh_writer
       = (fresh_writer, Some ''{}'')
   \<and> json_Unmarshal demo_keeper_externals ''{}'' = None
   \<and> kx_HandleRequestError demo_keeper_externals fresh_writer None = (fresh_writer, None)
   \<and> json_Marshal demo_keeper_externals \<lparr>rkr_RootKey = keeper_RootKey \<lparr>keeper_rootKey = ''k''\<rparr>\<rparr>
       = (''rootKey=k'', None)
   \<and> wroteHeader (writer (routeShow demo_keeper_externals \<lparr>keeper_rootKey = ''k''\<rparr>
        (demo_request ''{}'') fresh_writer)) = Some 200
   \<and> written (writer (routeShow demo_keeper_externals \<lparr>keeper_rootKey = ''k''\<rparr>
        (demo_request ''{}'') fresh_writer)) = ''rootKey=k''"
proof -
  have h: "wroteHeader fresh_writer = None" and b: "written fresh_writer = ''''"
    by (simp_all add: fresh_writer_def)
  have rd1: "kx_ReadRequestBody demo_keeper_externals (demo_request ''not json'') fresh_writer
       = (fresh_writer, Some ''not json'')"
    by (simp add: demo_keeper_externals_def demo_request_def)
  have um1: "json_Unmarshal demo_keeper_externals ''not json'' = Some ''unexpected end of JSON input''"
    by (simp add: demo_keeper_externals_def)
  have he1: "kx_HandleRequestError demo_keeper_externals fresh_writer (Some ''unexpected end of JSON input'')
       = (fresh_writer, Some ''unexpected end of JSON input'')"
    by (simp add: demo_keeper_externals_def)
  have rd2: "kx_ReadRequestBody demo_keeper_externals (demo_request ''{}'') fresh_writer
       = (fresh_writer, Some ''{}'')"
    by (simp add: demo_keeper_externals_def demo_request_def)
  have um2: "json_Unmarshal demo_keeper_externals ''{}'' = None"
    by (simp add: demo_keeper_externals_def)
  have he2: "kx_HandleRequestError demo_keeper_externals fresh_writer None = (fresh_writer, None)"
    by (simp add: demo_keeper_externals_def)
  have ma: "json_Marshal demo_keeper_externals \<lparr>rkr_RootKey = keeper_RootKey \<lparr>keeper_rootKey = ''k''\<rparr>\<rparr>
       = (''rootKey=k'', None)"
    by (simp add: demo_keeper_externals_def keeper_RootKey_def)
  from show_requires_parsable_request [OF h b rd1, of "''unexpected end of JSON input''"
      fresh_writer "''unexpected end of JSON input''" "\<lparr>keeper_rootKey = ''k''\<rparr>"]
    um1 he1 h b
  have bad: "wroteHeader (writer (routeShow demo_keeper_externals \<lparr>keeper_rootKey = ''k''\<rparr>
        (demo_request ''not json'') fresh_writer)) = Some 400
      \<and> written (writer (routeShow demo_keeper_externals \<lparr>keeper_rootKey = ''k''\<rparr>
        (demo_request ''not json'') fresh_writer)) = ''''"
    by blast
  from show_requires_parsable_request [OF h b rd2, of _ _ _ "\<lparr>keeper_rootKey = ''k''\<rparr>" "''rootKey=k''"]
    um2 he2 ma
  have good: "wroteHeader (writer (routeShow demo_keeper_externals \<lparr>keeper_rootKey = ''k''\<rparr>
        (demo_request ''{}'') fresh_writer)) = Some 200
      \<and> written (writer (routeShow demo_keeper_externals \<lparr>keeper_rootKey = ''k''\<rparr>
        (demo_request ''{}'') fresh_writer)) = ''rootKey=k''"
    by blast
  from h b rd1 um1 he1 bad rd2 um2 he2 ma good show ?thesis by (simp only: simp_thms)
qed

text \<open>
  Claim C10. Login never mutates server state: whatever the request, the writer and the
  behaviour of the helpers, and whatever the outcome, the state after
  \<^verbatim>\<open>routeAdminLogin\<close> is the state before it; in particular the stored admin credentials
  and the admin token are unchanged. (The handler only calls the getters
  \<^verbatim>\<open>state.AdminCredentials()\<close> and \<^verbatim>\<open>state.AdminToken()\<close>.)
\<close>

theorem login_leaves_state:
  "state_after (routeAdminLogin X st audit r w) = st
   \<and> AdminCredentials (state_after (routeAdminLogin X st audit r w)) = AdminCredentials st
   \<and> AdminToken (state_after (routeAdminLogin X st audit r w)) = AdminToken st"
proof -
  have "state_after (routeAdminLogin X st audit r w) = st"
    by (cases rule: routeAdminLogin_paths [where X = X and r = r and st = st and audit = audit
          and w = w])
       (simp_all add: login_exit_def)
  then show ?thesis by simp
qed

end
